theory Spec2Isabelle
  imports Main "HOL-Library.Log_Nat"
begin

section \<open>Strings and arrays of the JavaScript runtime\<close>

text \<open>
  The scripts are browser glue: they read form fields, call the backend with \<open>fetch\<close> and
  write the answer into the page. The embedding keeps each script function as a HOL function
  on the part of the page it reads and writes. An \<open>await\<close> is modelled by handing the function
  the outcome of the awaited call, so a function runs from its call to its end in one step;
  \<open>setTimeout\<close> adds a timer with its callback, as a value of a datatype, to the timers of
  the page. Markup assigned to \<open>innerHTML\<close> is represented by its content (the elements it
  creates and their attributes), not by the text of the template, so the values put into a
  template are taken to be text. An element that a function looks up under a guard
  (\<open>if (!el) return\<close>) may be missing from the page; one that it uses without guard is there.

  A JavaScript string is a \<open>string\<close>, one \<open>char\<close> for each code unit; this covers the strings
  whose code units are below 256. The marks outside that range that the scripts put in front
  of messages are written as their UTF-8 bytes; no length of a message is ever taken.
\<close>

definition is_space :: "char \<Rightarrow> bool" where
  "is_space c = (c \<in> set [CHR '' '', CHR 0x09, CHR 0x0A, CHR 0x0B, CHR 0x0C, CHR 0x0D, CHR 0xA0])"

text \<open>
  \<open>String.prototype.trim\<close>: white space is removed at both ends. Below 256 the white space
  of JavaScript is the six characters of \<open>is_space\<close> and the no-break space.
\<close>

definition trim :: "string \<Rightarrow> string" where
  "trim s = rev (dropWhile is_space (rev (dropWhile is_space s)))"

text \<open>\<open>Array.prototype.join\<close>.\<close>

fun join :: "string \<Rightarrow> string list \<Rightarrow> string" where
  "join sep [] = []"
| "join sep [x] = x"
| "join sep (x # y # ys) = x @ sep @ join sep (y # ys)"

text \<open>
  \<open>[...new Set(xs)]\<close>: the elements in the order of their first occurrence. A \<open>Set\<close> adds an
  element only when it is not yet a member, and iterates in insertion order.
\<close>

definition set_add :: "'a list \<Rightarrow> 'a \<Rightarrow> 'a list" where
  "set_add acc x = (if x \<in> set acc then acc else acc @ [x])"

definition unique :: "'a list \<Rightarrow> 'a list" where
  "unique xs = foldl set_add [] xs"

text \<open>Decimal digits of a number, as template literals print an array length.\<close>

definition digit_char :: "nat \<Rightarrow> char" where
  "digit_char d = ''0123456789'' ! d"

function show_nat :: "nat \<Rightarrow> string" where
  "show_nat n = (if n < 10 then [digit_char n] else show_nat (n div 10) @ [digit_char (n mod 10)])"
  by pat_completeness auto
termination
  by (relation "measure id") auto

declare show_nat.simps [simp del]

section \<open>Region filters (ui.js, comparison.js)\<close>

text \<open>\<open>window.ENGLAND_REGIONS\<close>, the table of regions and their counties.\<close>

definition ENGLAND_REGIONS :: "(string \<times> string list) list" where
  "ENGLAND_REGIONS =
    [(''North West'', [''Cheshire'', ''Cumbria'', ''Greater Manchester'', ''Lancashire'', ''Merseyside'']),
     (''North East'', [''County Durham'', ''Northumberland'', ''Tyne and Wear'']),
     (''West Midlands'', [''Herefordshire'', ''Shropshire'', ''Staffordshire'', ''Warwickshire'',
        ''West Midlands'', ''Worcestershire'']),
     (''East Midlands'', [''Derbyshire'', ''Leicestershire'', ''Lincolnshire'', ''Northamptonshire'',
        ''Nottinghamshire'', ''Rutland'']),
     (''East'', [''Bedfordshire'', ''Cambridgeshire'', ''Essex'', ''Hertfordshire'', ''Norfolk'', ''Suffolk'']),
     (''South West'', [''Bristol'', ''Cornwall'', ''Devon'', ''Dorset'', ''Gloucestershire'', ''Somerset'',
        ''Wiltshire'']),
     (''South East'', [''Berkshire'', ''Buckinghamshire'', ''East Sussex'', ''Hampshire'', ''Isle of Wight'',
        ''Kent'', ''Oxfordshire'', ''Surrey'', ''West Sussex'']),
     (''London'', [''Greater London''])]"

text \<open>
  A \<open>select multiple\<close> element is the list of its options in document order, each with its
  value and whether it is selected. The page holds the extraction filter and the comparison
  filter.
\<close>

record select_option =
  opt_value :: string
  opt_selected :: bool

record filter_page =
  regionFilter :: "select_option list"
  counties :: string
  comparisonRegionFilter :: "select_option list"
  comparisonCounties :: string
  comparisonSicCodes :: string

text \<open>\<open>Array.from(select.selectedOptions).map(option => option.value)\<close>.\<close>

definition selectedRegions :: "select_option list \<Rightarrow> string list" where
  "selectedRegions opts = map opt_value (filter opt_selected opts)"

text \<open>
  The \<open>forEach\<close> that pushes the counties of every selected region that the table knows;
  a value that is not a key of the table adds nothing.
\<close>

definition region_counties :: "string \<Rightarrow> string list" where
  "region_counties region = (case map_of ENGLAND_REGIONS region of Some cs \<Rightarrow> cs | None \<Rightarrow> [])"

definition allCounties :: "string list \<Rightarrow> string list" where
  "allCounties regions = concat (map region_counties regions)"

definition onRegionChange :: "filter_page \<Rightarrow> filter_page" where
  "onRegionChange p =
    (let regions = selectedRegions (regionFilter p) in
     if length regions > 0
     then p\<lparr>counties := join '', '' (unique (allCounties regions))\<rparr>
     else p\<lparr>counties := []\<rparr>)"

definition deselect_all :: "select_option list \<Rightarrow> select_option list" where
  "deselect_all opts = map (\<lambda>opt. opt\<lparr>opt_selected := False\<rparr>) opts"

definition clearRegionFilter :: "filter_page \<Rightarrow> filter_page" where
  "clearRegionFilter p = p\<lparr>regionFilter := deselect_all (regionFilter p), counties := []\<rparr>"

definition onComparisonRegionChange :: "filter_page \<Rightarrow> filter_page" where
  "onComparisonRegionChange p =
    (let regions = selectedRegions (comparisonRegionFilter p) in
     if length regions > 0
     then p\<lparr>comparisonCounties := join '', '' (unique (allCounties regions))\<rparr>
     else p\<lparr>comparisonCounties := []\<rparr>)"

definition clearComparisonFilters :: "filter_page \<Rightarrow> filter_page" where
  "clearComparisonFilters p =
    p\<lparr>comparisonSicCodes := '''', comparisonCounties := [],
      comparisonRegionFilter := deselect_all (comparisonRegionFilter p)\<rparr>"


section \<open>Company table and inline editing (ui.js)\<close>

text \<open>
  A company row of a server response: its id and its flat fields by key. A field that is
  missing or \<open>null\<close> is \<open>None\<close>.
\<close>

record company =
  company_id :: nat
  company_fields :: "string \<Rightarrow> string option"

record column =
  col_key :: string
  col_label :: string
  col_editable :: bool

definition columns :: "column list" where
  "columns =
    [\<lparr>col_key = ''company_number'', col_label = ''CompanyNumber'', col_editable = False\<rparr>,
     \<lparr>col_key = ''business_name'', col_label = ''BusinessName'', col_editable = True\<rparr>,
     \<lparr>col_key = ''address_line1'', col_label = ''AddressLine1'', col_editable = True\<rparr>,
     \<lparr>col_key = ''address_line2'', col_label = ''AddressLine2'', col_editable = True\<rparr>,
     \<lparr>col_key = ''town'', col_label = ''Town'', col_editable = True\<rparr>,
     \<lparr>col_key = ''county'', col_label = ''County'', col_editable = True\<rparr>,
     \<lparr>col_key = ''postcode'', col_label = ''Postcode'', col_editable = True\<rparr>,
     \<lparr>col_key = ''person_with_significant_control'', col_label = ''PersonWithSignificantControl'',
       col_editable = False\<rparr>,
     \<lparr>col_key = ''nature_of_control'', col_label = ''NatureOfControl'', col_editable = False\<rparr>,
     \<lparr>col_key = ''title'', col_label = ''Title'', col_editable = True\<rparr>,
     \<lparr>col_key = ''fname'', col_label = ''Fname'', col_editable = True\<rparr>,
     \<lparr>col_key = ''sname'', col_label = ''Sname'', col_editable = True\<rparr>,
     \<lparr>col_key = ''position'', col_label = ''Position'', col_editable = True\<rparr>,
     \<lparr>col_key = ''sic'', col_label = ''SIC'', col_editable = False\<rparr>,
     \<lparr>col_key = ''company_status'', col_label = ''CompanyStatus'', col_editable = False\<rparr>,
     \<lparr>col_key = ''company_type'', col_label = ''CompanyType'', col_editable = False\<rparr>,
     \<lparr>col_key = ''date_of_creation'', col_label = ''DateOfCreation'', col_editable = False\<rparr>,
     \<lparr>col_key = ''website'', col_label = ''Website'', col_editable = True\<rparr>,
     \<lparr>col_key = ''phone'', col_label = ''Phone'', col_editable = True\<rparr>,
     \<lparr>col_key = ''email'', col_label = ''Email'', col_editable = True\<rparr>,
     \<lparr>col_key = ''website_address'', col_label = ''WebsiteAddress'', col_editable = True\<rparr>,
     \<lparr>col_key = ''address_match'', col_label = ''AddressMatch(RegVsWeb)'', col_editable = True\<rparr>]"

text \<open>
  A table cell (\<open>td\<close>) with the attributes and properties the scripts read and write.
  \<open>originalValue\<close> is \<open>cell.dataset.originalValue\<close>, \<open>None\<close> while the attribute is not set;
  \<open>blurListeners\<close> holds, for every \<open>blur\<close> listener added by \<open>enableInlineEditing\<close>, the
  dataset id its call of \<open>saveCell\<close> passes.
\<close>

record cell =
  contenteditable :: bool
  companyId :: nat
  field :: string
  classList :: "string list"
  datasetId :: nat
  innerText :: string
  originalValue :: "string option"
  background :: string
  blurListeners :: "nat list"

text \<open>\<open>classList.add\<close> and \<open>classList.remove\<close>.\<close>

definition class_add :: "string \<Rightarrow> string list \<Rightarrow> string list" where
  "class_add c cs = (if c \<in> set cs then cs else cs @ [c])"

definition class_remove :: "string \<Rightarrow> string list \<Rightarrow> string list" where
  "class_remove c cs = removeAll c cs"

text \<open>The \<open>td\<close> of one column of one company; \<open>c[col.key] ?? ""\<close> is its text.\<close>

definition render_cell :: "nat \<Rightarrow> company \<Rightarrow> column \<Rightarrow> cell" where
  "render_cell dsId c col =
    \<lparr>contenteditable = col_editable col,
     companyId = company_id c,
     field = col_key col,
     classList = [if col_editable col then ''editable-cell'' else ''readonly-cell''],
     datasetId = dsId,
     innerText = (case company_fields c (col_key col) of Some v \<Rightarrow> v | None \<Rightarrow> []),
     originalValue = None,
     background = [],
     blurListeners = []\<rparr>"



text \<open>
  \<open>enableInlineEditing\<close>: every element of the document with class \<open>editable-cell\<close> gets its
  trimmed text as stored original value and one more \<open>blur\<close> listener.
\<close>

definition enable_cell :: "nat \<Rightarrow> cell \<Rightarrow> cell" where
  "enable_cell dsId c =
    (if ''editable-cell'' \<in> set (classList c)
     then c\<lparr>originalValue := Some (trim (innerText c)), blurListeners := blurListeners c @ [dsId]\<rparr>
     else c)"





text \<open>
  The outcome of the \<open>PATCH\<close> request of \<open>saveCell\<close>: \<open>fetch\<close> rejects, or it answers with
  \<open>res.ok\<close>, \<open>res.status\<close> and a body that \<open>res.json()\<close> rejects or parses; of a parsed body
  only the truth of \<open>data.success\<close> is read.
\<close>

datatype json_body = JsonRejected | JsonBody bool

datatype patch_outcome = FetchRejected | Response bool nat json_body

text \<open>The \<open>try\<close> block reaches its end exactly when nothing in it throws.\<close>

fun patch_succeeds :: "patch_outcome \<Rightarrow> bool" where
  "patch_succeeds FetchRejected = False"
| "patch_succeeds (Response ok status JsonRejected) = False"
| "patch_succeeds (Response ok status (JsonBody success)) = (ok \<and> success)"

record patch_request =
  req_company :: nat
  req_field :: string
  req_value :: string

text \<open>The two callbacks \<open>saveCell\<close> hands to \<open>setTimeout\<close>.\<close>

datatype cell_timer = RemoveSaved | RemoveError

fun run_cell_timer :: "cell_timer \<Rightarrow> cell \<Rightarrow> cell" where
  "run_cell_timer RemoveSaved c = c\<lparr>classList := class_remove ''saved'' (classList c), background := []\<rparr>"
| "run_cell_timer RemoveError c = c\<lparr>classList := class_remove ''error'' (classList c), background := []\<rparr>"

record save_result =
  cell_after :: cell
  request :: patch_request
  scheduled :: "(nat \<times> cell_timer) list"

text \<open>
  \<open>saveCell(cell, datasetId)\<close>, given the outcome of its request. \<open>a || b\<close> yields \<open>b\<close> when
  \<open>a\<close> is \<open>undefined\<close> or the empty string.
\<close>

definition js_or_string :: "string option \<Rightarrow> string \<Rightarrow> string" where
  "js_or_string a b = (case a of None \<Rightarrow> b | Some v \<Rightarrow> if v = [] then b else v)"

definition saveCell :: "cell \<Rightarrow> nat \<Rightarrow> patch_outcome \<Rightarrow> save_result" where
  "saveCell cell dsId outcome =
    (let val = trim (innerText cell);
         orig = js_or_string (originalValue cell) (innerText cell);
         editing = cell\<lparr>background := ''#fff3cd'', classList := class_add ''editing'' (classList cell)\<rparr>;
         req = \<lparr>req_company = companyId cell, req_field = field cell, req_value = val\<rparr>
     in if patch_succeeds outcome
        then \<lparr>cell_after = editing\<lparr>background := ''#d4edda'',
                  classList := class_add ''saved'' (class_remove ''editing'' (classList editing)),
                  originalValue := Some val\<rparr>,
              request = req,
              scheduled = [(1000, RemoveSaved)]\<rparr>
        else \<lparr>cell_after = editing\<lparr>innerText := orig,
                  background := ''#f8d7da'',
                  classList := class_add ''error'' (class_remove ''editing'' (classList editing))\<rparr>,
              request = req,
              scheduled = [(3000, RemoveError)]\<rparr>)"

section \<open>JavaScript numbers\<close>

text \<open>
  A JavaScript number is an IEEE 754 double: a finite value (a rational), an infinity or
  \<open>NaN\<close>. The model does not tell \<open>-0\<close> from \<open>+0\<close>. Every arithmetic operation yields the
  double nearest to the exact result, ties to the even significand: \<open>fl\<close>. A double has a
  significand of 53 bits; the exponent of a normal double is at least \<open>-1022\<close> (below, the
  spacing stays \<open>2^-1074\<close>), and a result that rounds to \<open>2^1024\<close> or more is an infinity.
\<close>

datatype jsnum = Fin rat | PInf | NInf | NaN

definition pow2 :: "int \<Rightarrow> rat" where
  "pow2 k = (if 0 \<le> k then 2 ^ nat k else 1 / 2 ^ nat (- k))"

text \<open>The exponent \<open>e\<close> with \<open>2^e \<le> q < 2^(e+1)\<close>, for \<open>q > 0\<close>.\<close>

definition ilog2 :: "rat \<Rightarrow> int" where
  "ilog2 q = (if 1 \<le> q then bitlen \<lfloor>q\<rfloor> - 1 else - bitlen (\<lceil>1 / q\<rceil> - 1))"

definition round_half_even :: "rat \<Rightarrow> int" where
  "round_half_even q =
    (let f = \<lfloor>q\<rfloor>; r = q - of_int f in
     if r < 1 / 2 then f else if 1 / 2 < r then f + 1 else if even f then f else f + 1)"

definition fl_pos :: "rat \<Rightarrow> jsnum" where
  "fl_pos q =
    (let e = max (ilog2 q) (- 1022);
         ulp = pow2 (e - 52);
         v = of_int (round_half_even (q / ulp)) * ulp
     in if pow2 1024 \<le> v then PInf else Fin v)"

fun js_neg :: "jsnum \<Rightarrow> jsnum" where
  "js_neg (Fin q) = Fin (- q)"
| "js_neg PInf = NInf"
| "js_neg NInf = PInf"
| "js_neg NaN = NaN"

definition fl :: "rat \<Rightarrow> jsnum" where
  "fl q = (if q = 0 then Fin 0 else if 0 < q then fl_pos q else js_neg (fl_pos (- q)))"

text \<open>The operators \<open>/\<close> and \<open>*\<close>, and \<open>Math.round\<close> (to the nearest integer, a tie upwards).\<close>

fun js_div :: "jsnum \<Rightarrow> jsnum \<Rightarrow> jsnum" where
  "js_div (Fin x) (Fin y) =
    (if y = 0 then (if x = 0 then NaN else if 0 < x then PInf else NInf) else fl (x / y))"
| "js_div (Fin x) PInf = Fin 0"
| "js_div (Fin x) NInf = Fin 0"
| "js_div PInf (Fin y) = (if 0 \<le> y then PInf else NInf)"
| "js_div NInf (Fin y) = (if 0 \<le> y then NInf else PInf)"
| "js_div x y = NaN"

fun js_mul :: "jsnum \<Rightarrow> jsnum \<Rightarrow> jsnum" where
  "js_mul (Fin x) (Fin y) = fl (x * y)"
| "js_mul (Fin x) PInf = (if x = 0 then NaN else if 0 < x then PInf else NInf)"
| "js_mul (Fin x) NInf = (if x = 0 then NaN else if 0 < x then NInf else PInf)"
| "js_mul PInf (Fin y) = (if y = 0 then NaN else if 0 < y then PInf else NInf)"
| "js_mul NInf (Fin y) = (if y = 0 then NaN else if 0 < y then NInf else PInf)"
| "js_mul PInf PInf = PInf"
| "js_mul PInf NInf = NInf"
| "js_mul NInf PInf = NInf"
| "js_mul NInf NInf = PInf"
| "js_mul x y = NaN"

fun Math_round :: "jsnum \<Rightarrow> jsnum" where
  "Math_round (Fin x) = Fin (of_int \<lfloor>x + 1 / 2\<rfloor>)"
| "Math_round x = x"

text \<open>
  The numbers that an attribute of the WebIDL type \<open>double\<close> takes are the finite ones; the
  assignment of an infinity or of \<open>NaN\<close> to such an attribute throws a \<open>TypeError\<close>.
\<close>

fun is_finite :: "jsnum \<Rightarrow> bool" where
  "is_finite (Fin x) = True"
| "is_finite x = False"

text \<open>
  A counter of a JSON body is a non-negative integer literal; \<open>JSON.parse\<close> yields the
  nearest double. \<open>a || b\<close> on a number that may be missing yields \<open>b\<close> when \<open>a\<close> is
  \<open>undefined\<close>, zero or \<open>NaN\<close>.
\<close>

definition json_number :: "nat \<Rightarrow> jsnum" where
  "json_number n = fl (of_nat n)"

definition js_or_number :: "jsnum option \<Rightarrow> jsnum \<Rightarrow> jsnum" where
  "js_or_number a b = (case a of None \<Rightarrow> b | Some v \<Rightarrow> if v = Fin 0 \<or> v = NaN then b else v)"

text \<open>
  Integers below \<open>2^53\<close> are the safe integers of JavaScript: each is a double. A counter
  that is absent counts as safe.
\<close>

definition safe_counter :: "nat option \<Rightarrow> bool" where
  "safe_counter c = (case c of None \<Rightarrow> True | Some n \<Rightarrow> n < 2 ^ 53)"

section \<open>Status boxes (ui.js)\<close>

text \<open>
  The elements that \<open>showStatus\<close> writes, by id; an id without element is \<open>None\<close>.
  A falsy message (the empty string) clears and hides the box.
\<close>

record status_box =
  className :: string
  innerHTML :: string
  display :: string

type_synonym status_boxes = "string \<Rightarrow> status_box option"

definition showStatus :: "string \<Rightarrow> string \<Rightarrow> string \<Rightarrow> status_boxes \<Rightarrow> status_boxes" where
  "showStatus ident message kind boxes =
    (case boxes ident of
       None \<Rightarrow> boxes
     | Some el \<Rightarrow>
        if message = []
        then boxes(ident \<mapsto> \<lparr>className = ''status-box'', innerHTML = [], display = ''none''\<rparr>)
        else boxes(ident \<mapsto> \<lparr>className = ''status-box '' @ kind, innerHTML = message, display = ''block''\<rparr>))"

text \<open>The marks the messages start with, in UTF-8: U+2705 and U+274C.\<close>

definition check_mark :: string where
  "check_mark = [CHR 0xE2, CHR 0x9C, CHR 0x85]"

definition cross_mark :: string where
  "cross_mark = [CHR 0xE2, CHR 0x9D, CHR 0x8C]"

section \<open>Polling the enrichment job (extract.js)\<close>

text \<open>
  What the runtime supplies and the sources do not fix: the text of a number in a template
  literal, the message of the \<open>TypeError\<close> raised when the named property is read from
  \<open>undefined\<close>, and the message of the \<open>TypeError\<close> raised when a number that is not finite is
  assigned to the \<open>value\<close> of a \<open>progress\<close> element.
\<close>

record runtime =
  number_to_string :: "jsnum \<Rightarrow> string"
  type_error_message :: "string \<Rightarrow> string"
  non_finite_message :: string

text \<open>
  The JSON body of \<open>/api/status/{jobId}\<close>. A field that is absent is \<open>None\<close>. The progress
  counters are non-negative integers.
\<close>

record enrichment_stats =
  total_processed :: "nat option"
  coverage :: "(string \<Rightarrow> string option) option"

record job_result =
  output_file :: "string option"
  enrichment_stats :: "enrichment_stats option"

record status_response =
  status :: string
  error :: "string option"
  processed :: "nat option"
  total' :: "nat option"
  result :: "job_result option"

text \<open>
  The outcome of the two awaited calls \<open>fetch\<close> and \<open>res.json()\<close>: one of them rejects with
  an error of the given message, or the body is parsed.
\<close>

datatype poll_outcome = Rejected string | Parsed status_response

text \<open>What the dataset card and the coverage card show.\<close>

datatype dataset_info =
  NoDatasetInfo
  | ExtractedInfo nat string
  | EnrichedInfo nat "string option"

datatype coverage_stats =
  NoCoverage
  | Coverage string string string string

datatype poll_timer = PollAgain string

text \<open>
  The page. \<open>enrichmentProgressBar\<close> is the number last assigned to the \<open>value\<close> of the
  progress bar, a \<open>progress\<close> element: its \<open>value\<close> is an attribute of type \<open>double\<close>, so it
  takes finite numbers only. \<open>download_enriched_btn\<close> is the \<open>display\<close> of the download
  button, \<open>timers\<close> the pending timers with their delays.
\<close>

record enrich_page =
  enrichmentStatus :: status_boxes
  enrichmentProgressBar :: jsnum
  download_enriched_btn :: string
  currentDatasetFile :: "string option"
  enrichmentJobId :: "string option"
  datasetInfo :: dataset_info
  coverageStats :: coverage_stats
  timers :: "(nat \<times> poll_timer) list"

text \<open>\<open>coverage.phone || "0%"\<close> on \<open>coverage = stats.coverage || {}\<close>.\<close>

definition coverage_entry :: "(string \<Rightarrow> string option) option \<Rightarrow> string \<Rightarrow> string" where
  "coverage_entry cov k =
    (case cov of
       None \<Rightarrow> ''0%''
     | Some c \<Rightarrow> (case c k of None \<Rightarrow> ''0%'' | Some v \<Rightarrow> if v = [] then ''0%'' else v))"

text \<open>String concatenation with a value that may be \<open>undefined\<close>.\<close>

definition js_string :: "string option \<Rightarrow> string" where
  "js_string v = (case v of None \<Rightarrow> ''undefined'' | Some s \<Rightarrow> s)"

text \<open>The \<open>catch\<close> block of \<open>pollEnrichmentStatus\<close>.\<close>

definition poll_catch :: "string \<Rightarrow> enrich_page \<Rightarrow> enrich_page" where
  "poll_catch message s =
    s\<lparr>enrichmentStatus :=
        showStatus ''enrichmentStatus'' (cross_mark @ '' Error checking status: '' @ message) ''error''
          (enrichmentStatus s)\<rparr>"

text \<open>
  The counter that \<open>c || d\<close> stands for, as a natural number: \<open>d\<close> when \<open>c\<close> is
  missing or zero.
\<close>

definition counter_or :: "nat option \<Rightarrow> nat \<Rightarrow> nat" where
  "counter_or c d = (case c of None \<Rightarrow> d | Some n \<Rightarrow> if n = 0 then d else n)"

text \<open>The three constants of the last branch: \<open>processed\<close>, \<open>total\<close> and \<open>percent\<close>.\<close>

definition poll_processed :: "status_response \<Rightarrow> jsnum" where
  "poll_processed data = js_or_number (map_option json_number (processed data)) (Fin 0)"

definition poll_total :: "status_response \<Rightarrow> jsnum" where
  "poll_total data = js_or_number (map_option json_number (total' data)) (Fin 1)"

definition poll_percent :: "status_response \<Rightarrow> jsnum" where
  "poll_percent data = Math_round (js_mul (js_div (poll_processed data) (poll_total data)) (Fin 100))"

text \<open>
  \<open>pollEnrichmentStatus(jobId)\<close>, given the outcome of its request. The statements run in
  the order of the source inside its \<open>try\<close>, so a statement that throws leaves the assignments
  before it in place and goes to the \<open>catch\<close> block: in the branch of a completed job a
  property read from \<open>undefined\<close>, in the last branch the assignment of a percentage that is not
  finite to the progress bar, which comes before the status message and before \<open>setTimeout\<close>.
\<close>

definition pollEnrichmentStatus :: "runtime \<Rightarrow> string \<Rightarrow> poll_outcome \<Rightarrow> enrich_page \<Rightarrow> enrich_page" where
  "pollEnrichmentStatus rt jobId outcome s =
    (case outcome of
       Rejected message \<Rightarrow> poll_catch message s
     | Parsed data \<Rightarrow>
        if status data = ''completed'' then
          (let s1 = s\<lparr>enrichmentStatus :=
                        showStatus ''enrichmentStatus'' (check_mark @ '' Enrichment complete'') ''success''
                          (enrichmentStatus s),
                      enrichmentProgressBar := Fin 100,
                      download_enriched_btn := ''inline-block''\<rparr>
           in case result data of
                None \<Rightarrow> poll_catch (type_error_message rt ''output_file'') s1
              | Some res \<Rightarrow>
                 (let enrichedFile = output_file res;
                      s2 = s1\<lparr>currentDatasetFile := enrichedFile, enrichmentJobId := Some jobId\<rparr>
                  in case enrichment_stats res of
                       None \<Rightarrow> poll_catch (type_error_message rt ''total_processed'') s2
                     | Some stats \<Rightarrow>
                        (case total_processed stats of
                           None \<Rightarrow> poll_catch (type_error_message rt ''toLocaleString'') s2
                         | Some n \<Rightarrow>
                            s2\<lparr>datasetInfo := EnrichedInfo n enrichedFile,
                               coverageStats :=
                                 Coverage (coverage_entry (coverage stats) ''phone'')
                                   (coverage_entry (coverage stats) ''website'')
                                   (coverage_entry (coverage stats) ''psc'')
                                   (coverage_entry (coverage stats) ''officers'')\<rparr>)))
        else if status data = ''failed'' then
          s\<lparr>enrichmentStatus :=
              showStatus ''enrichmentStatus'' (cross_mark @ '' '' @ js_string (error data)) ''error''
                (enrichmentStatus s)\<rparr>
        else
          (let percent = poll_percent data in
           if \<not> is_finite percent then poll_catch (non_finite_message rt) s
           else
             s\<lparr>enrichmentProgressBar := percent,
               enrichmentStatus :=
                 showStatus ''enrichmentStatus''
                   (''<span class='loading'></span> Enriching... '' @ number_to_string rt (poll_processed data)
                     @ '' / '' @ number_to_string rt (poll_total data) @ '' companies'')
                   ''info'' (enrichmentStatus s),
               timers := timers s @ [(2000, PollAgain jobId)]\<rparr>))"

text \<open>
  The polls of one job. The first is the call in \<open>enrichDataset\<close>; each later one is the
  scheduled timer firing, if there is one. \<open>poll_states\<close> lists the page after every poll,
  given the outcomes of the requests in the order they are made; it ends with the poll that
  schedules no timer.
\<close>

fun next_polls :: "runtime \<Rightarrow> poll_outcome list \<Rightarrow> enrich_page \<Rightarrow> enrich_page list" where
  "next_polls rt [] s = []"
| "next_polls rt (out # outs) s =
    (case timers s of
       [] \<Rightarrow> []
     | (delay, PollAgain jobId) # rest \<Rightarrow>
        (let s' = pollEnrichmentStatus rt jobId out (s\<lparr>timers := rest\<rparr>) in s' # next_polls rt outs s'))"

fun poll_states :: "runtime \<Rightarrow> string \<Rightarrow> poll_outcome list \<Rightarrow> enrich_page \<Rightarrow> enrich_page list" where
  "poll_states rt jobId [] s = []"
| "poll_states rt jobId (out # outs) s =
    (let s' = pollEnrichmentStatus rt jobId out s in s' # next_polls rt outs s')"

section \<open>The list of saved datasets (datasets.js)\<close>

text \<open>
  A dataset summary of the response of \<open>/api/datasets\<close>: \<open>id\<close>, \<open>name\<close>,
  \<open>total_companies\<close>, \<open>sic_codes\<close>, \<open>description\<close> and \<open>created_at\<close>.
\<close>

record dataset_summary =
  ds_id :: nat
  ds_name :: string
  ds_total_companies :: nat
  ds_sic_codes :: "string option"
  ds_description :: "string option"
  ds_created_at :: string

record datasets_response =
  success :: bool
  detail :: "string option"
  datasets :: "dataset_summary list option"











section \<open>Debounced search (search.js)\<close>

text \<open>
  The body of \<open>/api/search\<close>: \<open>success\<close>, \<open>detail\<close>, \<open>total_matching\<close> and the matching
  datasets, of which the model keeps the ids. The outcome of the request is a rejection
  (of \<open>fetch\<close> or of \<open>res.json()\<close>) with its message, or the parsed body.
\<close>

record search_response =
  search_success :: bool
  search_detail :: "string option"
  total_matching :: "nat option"
  matching_datasets :: "nat list"

datatype search_outcome = SearchRejected string | SearchBody search_response

text \<open>
  What \<open>#searchResults\<close> shows: nothing, the notice that nothing was found for a query, or
  the markup that \<open>renderSearchResults(data, query)\<close> builds.
\<close>

datatype search_results = NoResults | NothingFoundFor string | Rendered search_response string

text \<open>
  A pending timer of \<open>globalSearch\<close>: its handle, the time in milliseconds at which it is
  due, and the query its callback passes to \<open>executeSearch\<close>. A request is recorded by the
  query that \<open>encodeURIComponent\<close> puts into its URL.
\<close>

record search_timer =
  handle :: nat
  due :: nat
  timer_query :: string

record search_page =
  searchQuery :: string
  searchStatus :: status_boxes
  searchResults :: search_results
  lastSearchResults :: "search_response option"
  searchTimeout :: "nat option"
  search_timers :: "search_timer list"
  next_handle :: nat
  search_requests :: "string list"

text \<open>\<open>clearTimeout(h)\<close>: the timer of that handle, if it is pending, is dropped.\<close>

definition clearTimeout :: "nat option \<Rightarrow> search_timer list \<Rightarrow> search_timer list" where
  "clearTimeout h ts = filter (\<lambda>t. Some (handle t) \<noteq> h) ts"

text \<open>\<open>globalSearch()\<close>, called at the time \<open>now\<close>.\<close>

definition globalSearch :: "nat \<Rightarrow> search_page \<Rightarrow> search_page" where
  "globalSearch now s =
    (let query = trim (searchQuery s) in
     if length query < 1
     then s\<lparr>searchStatus := showStatus ''searchStatus'' ''Please enter search term'' ''error'' (searchStatus s),
            searchResults := NoResults\<rparr>
     else s\<lparr>search_timers :=
              clearTimeout (searchTimeout s) (search_timers s)
                @ [\<lparr>handle = next_handle s, due = now + 300, timer_query = query\<rparr>],
            searchTimeout := Some (next_handle s),
            next_handle := next_handle s + 1\<rparr>)"

text \<open>\<open>executeSearch(query)\<close>, given the outcome of its request if it makes one.\<close>

definition executeSearch :: "string \<Rightarrow> search_outcome \<Rightarrow> search_page \<Rightarrow> search_page" where
  "executeSearch query outcome s =
    (if length query < 2
     then s\<lparr>searchStatus := showStatus ''searchStatus'' ''Enter at least 2 characters'' ''error'' (searchStatus s)\<rparr>
     else
       let s1 = s\<lparr>searchStatus :=
                    showStatus ''searchStatus''
                      ''<span class='loading'></span> Searching across all datasets...'' ''info'' (searchStatus s),
                  search_requests := search_requests s @ [query]\<rparr>
       in case outcome of
            SearchRejected message \<Rightarrow>
              s1\<lparr>searchStatus := showStatus ''searchStatus'' message ''error'' (searchStatus s1)\<rparr>
          | SearchBody data \<Rightarrow>
              if \<not> search_success data
              then s1\<lparr>searchStatus :=
                        showStatus ''searchStatus'' (js_or_string (search_detail data) ''Search failed'') ''error''
                          (searchStatus s1)\<rparr>
              else if total_matching data = Some 0
              then s1\<lparr>lastSearchResults := Some data,
                      searchResults := NothingFoundFor query,
                      searchStatus := showStatus ''searchStatus'' [] [] (searchStatus s1)\<rparr>
              else s1\<lparr>lastSearchResults := Some data,
                      searchResults := Rendered data query,
                      searchStatus := showStatus ''searchStatus'' [] [] (searchStatus s1)\<rparr>)"

text \<open>
  The event loop. At the time \<open>now\<close> the timers that are due run in the order of their due
  times; the callback of a timer is \<open>executeSearch\<close> on its query, and \<open>server\<close> gives the
  outcome of the request for a query. An input event at a time first lets the due timers run,
  then sets the value of the search field and calls \<open>globalSearch\<close>. After the last event
  every timer still pending runs.
\<close>

definition run_timer :: "(string \<Rightarrow> search_outcome) \<Rightarrow> search_page \<Rightarrow> search_timer \<Rightarrow> search_page" where
  "run_timer server s t = executeSearch (timer_query t) (server (timer_query t)) s"

definition run_due :: "(string \<Rightarrow> search_outcome) \<Rightarrow> nat \<Rightarrow> search_page \<Rightarrow> search_page" where
  "run_due server now s =
    foldl (run_timer server)
      (s\<lparr>search_timers := filter (\<lambda>t. \<not> due t \<le> now) (search_timers s)\<rparr>)
      (sort_key due (filter (\<lambda>t. due t \<le> now) (search_timers s)))"

definition input_event :: "(string \<Rightarrow> search_outcome) \<Rightarrow> search_page \<Rightarrow> nat \<times> string \<Rightarrow> search_page" where
  "input_event server s ev =
    (case ev of (now, v) \<Rightarrow> globalSearch now ((run_due server now s)\<lparr>searchQuery := v\<rparr>))"

definition run_pending :: "(string \<Rightarrow> search_outcome) \<Rightarrow> search_page \<Rightarrow> search_page" where
  "run_pending server s =
    foldl (run_timer server) (s\<lparr>search_timers := []\<rparr>) (sort_key due (search_timers s))"

definition run_events :: "(string \<Rightarrow> search_outcome) \<Rightarrow> (nat \<times> string) list \<Rightarrow> search_page \<Rightarrow> search_page" where
  "run_events server evs s = run_pending server (foldl (input_event server) s evs)"

text \<open>
  A burst: every event after the first comes less than 300 ms after the one before it, so
  before the timer of that one is due.
\<close>

fun burst :: "(nat \<times> string) list \<Rightarrow> bool" where
  "burst [] = True"
| "burst [ev] = True"
| "burst (ev1 # ev2 # evs) = (fst ev1 \<le> fst ev2 \<and> fst ev2 < fst ev1 + 300 \<and> burst (ev2 # evs))"

text \<open>The state in which exactly one timer is pending, the one \<open>searchTimeout\<close> refers to.\<close>

definition one_pending :: "search_page \<Rightarrow> nat \<Rightarrow> string \<Rightarrow> bool" where
  "one_pending s t q =
    (case searchTimeout s of
       None \<Rightarrow> False
     | Some h \<Rightarrow> search_timers s = [\<lparr>handle = h, due = t + 300, timer_query = q\<rparr>])"


section \<open>Letter generation (letters.js)\<close>

text \<open>
  The form. A radio group is the value of its checked button, if one is checked; a file
  input is the list of its files; \<open>datasetSelect\<close> and \<open>lettersPerFile\<close> are \<open>None\<close> when the
  element is missing, otherwise the value of the select and the result of \<open>parseInt\<close> on the
  value of the input (\<open>None\<close> for \<open>NaN\<close>). \<open>letterStatus\<close> is the status \<open>div\<close>, if there is
  one: the message it shows, the kind of its styling, and its \<open>display\<close>.
\<close>

record upload_file =
  file_name :: string
  file_size :: nat

record letter_status =
  status_message :: string
  status_kind :: string
  status_display :: string

text \<open>The two requests, with what they send.\<close>

datatype letter_request =
  GenerateUpload upload_file string int upload_file
  | GenerateDataset string string int

datatype letter_timer = HideLetterStatus

record letters_page =
  dataSource :: "string option"
  letterFileUpload :: "upload_file list"
  templateFileUpload :: "upload_file list"
  datasetSelect :: "string option"
  outputMode :: "string option"
  lettersPerFile :: "int option option"
  letterStatus :: "letter_status option"
  letter_requests :: "letter_request list"
  letter_timers :: "(nat \<times> letter_timer) list"
  downloads :: "string list"

text \<open>
  The outcome of a generation request: \<open>fetch\<close> rejects with a message; the response is
  not OK, with its status and \<open>errorData.error\<close> if there is one (\<open>errorData\<close> is the parsed
  body, or \<open>{error: 'Unknown error'}\<close> when the body does not parse); or it is OK, with the
  file name that the pattern finds in \<open>content-disposition\<close> and the headers
  \<open>X-Total-Letters\<close> and \<open>X-Files-Created\<close>, each if present.
\<close>

datatype letter_outcome =
  LetterRejected string
  | LetterNotOk nat "string option"
  | LetterOk "string option" "string option" "string option"

text \<open>\<open>showLetterStatus(message, type)\<close>; the kinds \<open>success\<close> and \<open>error\<close> hide after 8000 ms.\<close>

definition showLetterStatus :: "string \<Rightarrow> string \<Rightarrow> letters_page \<Rightarrow> letters_page" where
  "showLetterStatus message kind s =
    (case letterStatus s of
       None \<Rightarrow> s
     | Some statusDiv \<Rightarrow>
        if message = []
        then s\<lparr>letterStatus := Some (statusDiv\<lparr>status_display := ''none''\<rparr>)\<rparr>
        else
          s\<lparr>letterStatus :=
              Some \<lparr>status_message = message,
                    status_kind =
                      (if kind = ''success'' \<or> kind = ''error'' \<or> kind = ''warning'' then kind else ''info''),
                    status_display = ''block''\<rparr>,
            letter_timers :=
              (if kind = ''success'' \<or> kind = ''error''
               then letter_timers s @ [(8000, HideLetterStatus)]
               else letter_timers s)\<rparr>)"

text \<open>U+2713, the mark of the success messages.\<close>

definition tick_mark :: string where
  "tick_mark = [CHR 0xE2, CHR 0x9C, CHR 0x93]"

text \<open>What follows the request, in both functions: the \<open>catch\<close> block or the download.\<close>

definition download_name :: "string option \<Rightarrow> string" where
  "download_name disposition = (case disposition of None \<Rightarrow> ''letters.zip'' | Some f \<Rightarrow> f)"

definition generation_error :: "nat \<Rightarrow> string option \<Rightarrow> string" where
  "generation_error code err =
    js_or_string err (''Generation failed ('' @ show_nat code @ '')'')"

text \<open>
  The letters per file: 1 unless the mode is \<open>combined\<close>; then the parsed input, which
  must exist, be a number and be at least 1. The left side is the message of the check
  that fails.
\<close>

definition letters_per_file :: "string \<Rightarrow> letters_page \<Rightarrow> string + int" where
  "letters_per_file mode s =
    (if mode = ''combined''
     then (case lettersPerFile s of
             None \<Rightarrow> Inl ''Letters per file input not found''
           | Some None \<Rightarrow> Inl ''Letters per file must be a number greater than 0''
           | Some (Some n) \<Rightarrow>
               if n < 1 then Inl ''Letters per file must be a number greater than 0'' else Inr n)
     else Inr 1)"

definition generateFromUpload :: "letter_outcome \<Rightarrow> letters_page \<Rightarrow> letters_page" where
  "generateFromUpload outcome s =
    (case letterFileUpload s of
       [] \<Rightarrow> showLetterStatus ''Please select a data file'' ''error'' s
     | file # other_files \<Rightarrow>
        (case templateFileUpload s of
           [] \<Rightarrow> showLetterStatus ''Please upload a template file (.docx) - this is mandatory'' ''error'' s
         | templateFile # other_templates \<Rightarrow>
            (case outputMode s of
               None \<Rightarrow> showLetterStatus ''Please select an output mode'' ''error'' s
             | Some mode \<Rightarrow>
                (case letters_per_file mode s of
                   Inl message \<Rightarrow> showLetterStatus message ''error'' s
                 | Inr n \<Rightarrow>
                    (let s1 = showLetterStatus
                                ''<span class=\"loading\"></span> Processing file and generating letters...''
                                ''info'' s;
                         s2 = s1\<lparr>letter_requests :=
                                   letter_requests s1 @ [GenerateUpload file mode n templateFile]\<rparr>
                     in case outcome of
                          LetterRejected message \<Rightarrow> showLetterStatus (''Error: '' @ message) ''error'' s2
                        | LetterNotOk code err \<Rightarrow>
                            showLetterStatus (''Error: '' @ generation_error code err) ''error'' s2
                        | LetterOk disposition totalLetters filesCreated \<Rightarrow>
                            showLetterStatus
                              (tick_mark @ '' Successfully generated '' @ js_or_string totalLetters ''unknown''
                                @ '' letters in '' @ js_or_string filesCreated ''unknown''
                                @ '' file(s)! Check your Downloads folder.'')
                              ''success''
                              (s2\<lparr>downloads := downloads s2 @ [download_name disposition]\<rparr>))))))"

definition generateFromDataset :: "letter_outcome \<Rightarrow> letters_page \<Rightarrow> letters_page" where
  "generateFromDataset outcome s =
    (if js_or_string (datasetSelect s) [] = []
     then showLetterStatus ''Please select a dataset'' ''error'' s
     else
       (case templateFileUpload s of
          [] \<Rightarrow> showLetterStatus ''Please upload a template file (.docx) - this is mandatory'' ''error'' s
        | templateFile # other_templates \<Rightarrow>
           (case outputMode s of
              None \<Rightarrow> showLetterStatus ''Please select an output mode'' ''error'' s
            | Some mode \<Rightarrow>
               (case letters_per_file mode s of
                  Inl message \<Rightarrow> showLetterStatus message ''error'' s
                | Inr n \<Rightarrow>
                   (let dataset = js_or_string (datasetSelect s) [];
                        s1 = showLetterStatus
                               (''<span class=\"loading\"></span> Generating letters from dataset: '' @ dataset
                                 @ ''...'')
                               ''info'' s;
                        s2 = s1\<lparr>letter_requests := letter_requests s1 @ [GenerateDataset dataset mode n]\<rparr>
                    in case outcome of
                         LetterRejected message \<Rightarrow> showLetterStatus (''Error: '' @ message) ''error'' s2
                       | LetterNotOk code err \<Rightarrow>
                           showLetterStatus (''Error: '' @ generation_error code err) ''error'' s2
                       | LetterOk disposition totalLetters filesCreated \<Rightarrow>
                           showLetterStatus
                             (tick_mark @ '' Successfully generated letters from dataset! Check your Downloads folder.'')
                             ''success''
                             (s2\<lparr>downloads := downloads s2 @ [download_name disposition]\<rparr>))))))"

text \<open>\<open>generateLetters()\<close>, the handler of the submission.\<close>

definition generateLetters :: "letter_outcome \<Rightarrow> letters_page \<Rightarrow> letters_page" where
  "generateLetters outcome s =
    (case dataSource s of
       None \<Rightarrow> showLetterStatus ''Please select a data source'' ''error'' s
     | Some source \<Rightarrow>
        if source = ''upload'' then generateFromUpload outcome s else generateFromDataset outcome s)"
section \<open>Properties of the region filters\<close>

lemma set_add_distinct: "distinct acc \<Longrightarrow> distinct (set_add acc x)"
  by (simp add: set_add_def)

lemma set_set_add: "set (set_add acc x) = insert x (set acc)"
  by (auto simp: set_add_def)

lemma foldl_set_add_distinct: "distinct acc \<Longrightarrow> distinct (foldl set_add acc xs)"
  by (induction xs arbitrary: acc) (simp_all add: set_add_distinct)

lemma foldl_set_add_set: "set (foldl set_add acc xs) = set acc \<union> set xs"
  by (induction xs arbitrary: acc) (auto simp: set_set_add)

lemma distinct_unique: "distinct (unique xs)"
  by (simp add: unique_def foldl_set_add_distinct)

lemma set_unique: "set (unique xs) = set xs"
  by (simp add: unique_def foldl_set_add_set)

lemma set_allCounties: "set (allCounties regions) = (\<Union>r \<in> set regions. set (region_counties r))"
  by (simp add: allCounties_def)

lemma selectedRegions_deselect_all: "selectedRegions (deselect_all opts) = []"
  by (induction opts) (simp_all add: selectedRegions_def deselect_all_def)

text \<open>
  C5. For a non-empty selection of regions the counties field of the extraction filter is the
  county lists of the selected regions, without duplicates, joined with a comma and a space:
  the joined list is duplicate free and has exactly the counties of the selected regions.
  For an empty selection the field is the empty string, and clearing the filter deselects
  every region and empties the field. The comparison filter behaves the same on its own
  fields.
\<close>

theorem region_filter_counties:
  "(selectedRegions (regionFilter p) \<noteq> [] \<longrightarrow>
      counties (onRegionChange p) = join '', '' (unique (allCounties (selectedRegions (regionFilter p)))))
   \<and> (selectedRegions (regionFilter p) = [] \<longrightarrow> counties (onRegionChange p) = [])
   \<and> (selectedRegions (comparisonRegionFilter p) \<noteq> [] \<longrightarrow>
      comparisonCounties (onComparisonRegionChange p) =
        join '', '' (unique (allCounties (selectedRegions (comparisonRegionFilter p)))))
   \<and> (selectedRegions (comparisonRegionFilter p) = [] \<longrightarrow>
      comparisonCounties (onComparisonRegionChange p) = [])
   \<and> distinct (unique (allCounties rs))
   \<and> set (unique (allCounties rs)) = (\<Union>r \<in> set rs. set (region_counties r))
   \<and> counties (clearRegionFilter p) = []
   \<and> selectedRegions (regionFilter (clearRegionFilter p)) = []
   \<and> counties (onRegionChange (clearRegionFilter p)) = []
   \<and> comparisonCounties (clearComparisonFilters p) = []
   \<and> selectedRegions (comparisonRegionFilter (clearComparisonFilters p)) = []
   \<and> comparisonCounties (onComparisonRegionChange (clearComparisonFilters p)) = []"
  by (simp add: onRegionChange_def onComparisonRegionChange_def clearRegionFilter_def
      clearComparisonFilters_def Let_def distinct_unique set_unique set_allCounties
      selectedRegions_deselect_all)

theorem region_filter_counties_witness:
  "counties (onRegionChange
      \<lparr>regionFilter = [\<lparr>opt_value = ''North West'', opt_selected = False\<rparr>,
                       \<lparr>opt_value = ''North East'', opt_selected = True\<rparr>,
                       \<lparr>opt_value = ''London'', opt_selected = True\<rparr>,
                       \<lparr>opt_value = ''North East'', opt_selected = True\<rparr>],
       counties = ''Kent'', comparisonRegionFilter = [\<lparr>opt_value = ''London'', opt_selected = True\<rparr>],
       comparisonCounties = [], comparisonSicCodes = []\<rparr>)
     = ''County Durham, Northumberland, Tyne and Wear, Greater London''
   \<and> comparisonCounties (onComparisonRegionChange
      \<lparr>regionFilter = [\<lparr>opt_value = ''North West'', opt_selected = False\<rparr>,
                       \<lparr>opt_value = ''North East'', opt_selected = True\<rparr>,
                       \<lparr>opt_value = ''London'', opt_selected = True\<rparr>,
                       \<lparr>opt_value = ''North East'', opt_selected = True\<rparr>],
       counties = ''Kent'', comparisonRegionFilter = [\<lparr>opt_value = ''London'', opt_selected = True\<rparr>],
       comparisonCounties = [], comparisonSicCodes = []\<rparr>) = ''Greater London''
   \<and> counties (onRegionChange
      \<lparr>regionFilter = [\<lparr>opt_value = ''London'', opt_selected = False\<rparr>], counties = ''Kent'',
       comparisonRegionFilter = [\<lparr>opt_value = ''London'', opt_selected = False\<rparr>],
       comparisonCounties = ''Essex'', comparisonSicCodes = []\<rparr>) = []
   \<and> comparisonCounties (onComparisonRegionChange
      \<lparr>regionFilter = [\<lparr>opt_value = ''London'', opt_selected = False\<rparr>], counties = ''Kent'',
       comparisonRegionFilter = [\<lparr>opt_value = ''London'', opt_selected = False\<rparr>],
       comparisonCounties = ''Essex'', comparisonSicCodes = []\<rparr>) = []"
  using
    region_filter_counties [of
      "\<lparr>regionFilter = [\<lparr>opt_value = ''North West'', opt_selected = False\<rparr>,
                       \<lparr>opt_value = ''North East'', opt_selected = True\<rparr>,
                       \<lparr>opt_value = ''London'', opt_selected = True\<rparr>,
                       \<lparr>opt_value = ''North East'', opt_selected = True\<rparr>],
       counties = ''Kent'', comparisonRegionFilter = [\<lparr>opt_value = ''London'', opt_selected = True\<rparr>],
       comparisonCounties = [], comparisonSicCodes = []\<rparr>" "[]"]
    region_filter_counties [of
      "\<lparr>regionFilter = [\<lparr>opt_value = ''London'', opt_selected = False\<rparr>], counties = ''Kent'',
       comparisonRegionFilter = [\<lparr>opt_value = ''London'', opt_selected = False\<rparr>],
       comparisonCounties = ''Essex'', comparisonSicCodes = []\<rparr>" "[]"]
  by (simp add: selectedRegions_def allCounties_def region_counties_def ENGLAND_REGIONS_def
      unique_def set_add_def)

section \<open>Properties of the company table\<close>








subsection \<open>Saving a cell\<close>

lemma class_remove_absent: "c \<notin> set (class_remove c cs)"
  by (simp add: class_remove_def)

lemma class_add_present: "c \<in> set (class_add c cs)"
  by (simp add: class_add_def)

text \<open>
  What \<open>saveCell\<close> does to the stored original value: a save that succeeds stores the
  submitted (trimmed) text, a save that fails leaves it as it was.
\<close>

lemma saveCell_originalValue:
  "originalValue (cell_after (saveCell c d out)) =
    (if patch_succeeds out then Some (trim (innerText c)) else originalValue c)"
  by (simp add: saveCell_def Let_def)

lemma enable_cell_originalValue:
  "''editable-cell'' \<in> set (classList c) \<Longrightarrow> originalValue (enable_cell d c) = Some (trim (innerText c))"
  by (simp add: enable_cell_def)

text \<open>
  A failed save of a cell whose stored original value is not empty: the text is restored
  to it, the class \<open>error\<close> is set, and the one timer scheduled fires after 3000 ms and
  removes the class.
\<close>

lemma saveCell_failure_restores:
  assumes "originalValue c = Some v" and "v \<noteq> []" and "\<not> patch_succeeds out"
  shows "innerText (cell_after (saveCell c d out)) = v
    \<and> ''error'' \<in> set (classList (cell_after (saveCell c d out)))
    \<and> scheduled (saveCell c d out) = [(3000, RemoveError)]
    \<and> ''error'' \<notin> set (classList (run_cell_timer RemoveError (cell_after (saveCell c d out))))"
  using assms
  by (simp add: saveCell_def Let_def js_or_string_def class_add_present class_remove_absent)

text \<open>
  C3, at the empty string. A company without business name is rendered, so its cell shows
  the empty string and \<open>enableInlineEditing\<close> stores the empty string as original value. The
  user types \<open>Foo\<close> and the save fails (the request is rejected, the status is not OK, or the
  body says \<open>success: false\<close>): the class \<open>error\<close> is set and cleared 3000 ms later, but the
  text stays \<open>Foo\<close>; it is not restored to the empty string the cell had before the edit.
\<close>

theorem saveCell_failure_keeps_edit_of_blank_cell:
  "originalValue (enable_cell 7 (render_cell 7 \<lparr>company_id = 3, company_fields = Map.empty\<rparr> (columns ! 1)))
      = Some []
   \<and> innerText (enable_cell 7 (render_cell 7 \<lparr>company_id = 3, company_fields = Map.empty\<rparr> (columns ! 1)))
      = []
   \<and> innerText (cell_after (saveCell
        ((enable_cell 7 (render_cell 7 \<lparr>company_id = 3, company_fields = Map.empty\<rparr> (columns ! 1)))
           \<lparr>innerText := ''Foo''\<rparr>) 7 FetchRejected)) = ''Foo''
   \<and> innerText (cell_after (saveCell
        ((enable_cell 7 (render_cell 7 \<lparr>company_id = 3, company_fields = Map.empty\<rparr> (columns ! 1)))
           \<lparr>innerText := ''Foo''\<rparr>) 7 (Response False 500 JsonRejected))) = ''Foo''
   \<and> innerText (cell_after (saveCell
        ((enable_cell 7 (render_cell 7 \<lparr>company_id = 3, company_fields = Map.empty\<rparr> (columns ! 1)))
           \<lparr>innerText := ''Foo''\<rparr>) 7 (Response True 200 (JsonBody False)))) = ''Foo''
   \<and> ''error'' \<in> set (classList (cell_after (saveCell
        ((enable_cell 7 (render_cell 7 \<lparr>company_id = 3, company_fields = Map.empty\<rparr> (columns ! 1)))
           \<lparr>innerText := ''Foo''\<rparr>) 7 FetchRejected)))
   \<and> scheduled (saveCell
        ((enable_cell 7 (render_cell 7 \<lparr>company_id = 3, company_fields = Map.empty\<rparr> (columns ! 1)))
           \<lparr>innerText := ''Foo''\<rparr>) 7 FetchRejected) = [(3000, RemoveError)]"
  by (simp add: columns_def render_cell_def enable_cell_def trim_def saveCell_def Let_def
      js_or_string_def class_add_def class_remove_def)

text \<open>
  C9, at the empty string. The cell is rendered with the text \<open>Acme\<close>. The user blanks it
  and the save succeeds, so the stored original value is the acknowledged empty string. The
  user then types \<open>Foo\<close> and the save fails: the stored original value is still the empty
  string, but the text stays \<open>Foo\<close>; the cell is not reverted to the value the server
  acknowledged last.
\<close>

theorem saveCell_failure_after_acknowledged_blank:
  "originalValue (enable_cell 7
      (render_cell 7 \<lparr>company_id = 3, company_fields = [''business_name'' \<mapsto> ''Acme'']\<rparr> (columns ! 1)))
      = Some ''Acme''
   \<and> originalValue (cell_after (saveCell
        ((enable_cell 7
           (render_cell 7 \<lparr>company_id = 3, company_fields = [''business_name'' \<mapsto> ''Acme'']\<rparr> (columns ! 1)))
           \<lparr>innerText := []\<rparr>) 7 (Response True 200 (JsonBody True)))) = Some []
   \<and> originalValue (cell_after (saveCell
        ((cell_after (saveCell
          ((enable_cell 7
             (render_cell 7 \<lparr>company_id = 3, company_fields = [''business_name'' \<mapsto> ''Acme'']\<rparr> (columns ! 1)))
             \<lparr>innerText := []\<rparr>) 7 (Response True 200 (JsonBody True))))
           \<lparr>innerText := ''Foo''\<rparr>) 7 (Response False 500 JsonRejected))) = Some []
   \<and> innerText (cell_after (saveCell
        ((cell_after (saveCell
          ((enable_cell 7
             (render_cell 7 \<lparr>company_id = 3, company_fields = [''business_name'' \<mapsto> ''Acme'']\<rparr> (columns ! 1)))
             \<lparr>innerText := []\<rparr>) 7 (Response True 200 (JsonBody True))))
           \<lparr>innerText := ''Foo''\<rparr>) 7 (Response False 500 JsonRejected))) = ''Foo''"
  by (simp add: columns_def render_cell_def enable_cell_def trim_def is_space_def saveCell_def Let_def
      js_or_string_def class_add_def class_remove_def)

section \<open>Properties of the number model\<close>

text \<open>Evaluation of \<open>floor\<close> and \<open>ceiling\<close> on a quotient of numerals.\<close>

lemma floor_rat_numeral: "\<lfloor>(numeral a :: rat) / numeral b\<rfloor> = numeral a div numeral b"
  using floor_divide_of_int_eq [of "numeral a" "numeral b", where ?'a = rat] by simp

lemma ceiling_rat_numeral: "\<lceil>(numeral a :: rat) / numeral b\<rceil> = - (- numeral a div numeral b)"
  by (simp add: ceiling_def floor_divide_of_int_eq [of "- numeral a" "numeral b", where ?'a = rat, simplified])

lemmas js_number_eval =
  fl_def fl_pos_def ilog2_def pow2_def round_half_even_def Let_def compute_bitlen
  floor_rat_numeral ceiling_rat_numeral json_number_def js_or_number_def

text \<open>\<open>ilog2\<close> is the exponent of the binade of its argument.\<close>

lemma pow2_pos: "0 < pow2 k"
  by (simp add: pow2_def)

lemma pow2_nonneg_exp: "0 \<le> k \<Longrightarrow> pow2 k = 2 ^ nat k"
  by (simp add: pow2_def)

lemma pow2_neg_exp: "k \<le> 0 \<Longrightarrow> pow2 k = 1 / 2 ^ nat (- k)"
  by (cases "k = 0") (simp_all add: pow2_def)

lemma pow2_powi: "pow2 k = 2 powi k"
  by (simp add: pow2_def power_int_def power_inverse inverse_eq_divide power_one_over)

lemma pow2_add: "pow2 (a + b) = pow2 a * pow2 b"
  by (simp add: pow2_powi power_int_add)

lemma pow2_mono: "a \<le> b \<Longrightarrow> pow2 a \<le> pow2 b"
  by (simp add: pow2_powi power_int_increasing)

lemma ilog2_ge1:
  assumes "1 \<le> q"
  shows "pow2 (ilog2 q) \<le> q \<and> q < pow2 (ilog2 q + 1)"
proof -
  define m where "m = \<lfloor>q\<rfloor>"
  have m: "0 < m" using assms by (simp add: m_def)
  have e: "ilog2 q = bitlen m - 1" using assms by (simp add: ilog2_def m_def)
  have b1: "1 \<le> bitlen m" using m bitlen_eq_zero_iff [of m] bitlen_nonneg [of m] by linarith
  from bitlen_bounds [OF m] have lo: "2 ^ nat (bitlen m - 1) \<le> m" and hi: "m < 2 ^ nat (bitlen m)"
    by simp_all
  have "pow2 (bitlen m - 1) = of_int (2 ^ nat (bitlen m - 1))"
    using b1 by (simp add: pow2_nonneg_exp)
  also have "\<dots> \<le> of_int m" using lo by (simp only: of_int_le_iff)
  also have "\<dots> \<le> q" by (simp add: m_def)
  finally have A: "pow2 (ilog2 q) \<le> q" by (simp add: e)
  have "m + 1 \<le> 2 ^ nat (bitlen m)" using hi by simp
  then have "(of_int (m + 1) :: rat) \<le> of_int (2 ^ nat (bitlen m))" by (simp only: of_int_le_iff)
  moreover have "q < of_int (m + 1)" using floor_correct [of q] by (simp add: m_def)
  moreover have "pow2 (bitlen m) = of_int (2 ^ nat (bitlen m))"
    using b1 by (simp add: pow2_nonneg_exp)
  ultimately have B: "q < pow2 (ilog2 q + 1)" by (simp add: e)
  from A B show ?thesis ..
qed

lemma ilog2_lt1:
  assumes "0 < q" and "q < 1"
  shows "pow2 (ilog2 q) \<le> q \<and> q < pow2 (ilog2 q + 1)"
proof -
  define r where "r = 1 / q"
  define n where "n = \<lceil>r\<rceil> - 1"
  have r1: "1 < r" using assms by (simp add: r_def)
  have n: "0 < n" using r1 by (simp add: n_def less_ceiling_iff)
  have e: "ilog2 q = - bitlen n" using assms by (simp add: ilog2_def n_def r_def)
  have b1: "1 \<le> bitlen n" using n bitlen_eq_zero_iff [of n] bitlen_nonneg [of n] by linarith
  from bitlen_bounds [OF n] have lo: "2 ^ nat (bitlen n - 1) \<le> n" and hi: "n < 2 ^ nat (bitlen n)"
    by simp_all
  have "r \<le> of_int (n + 1)" by (simp add: n_def)
  also have "(of_int (n + 1) :: rat) \<le> of_int (2 ^ nat (bitlen n))"
    using hi by (simp only: of_int_le_iff)
  finally have rle: "r \<le> 2 ^ nat (bitlen n)" by simp
  have qpos: "0 < q" by fact
  have "1 / 2 ^ nat (bitlen n) \<le> 1 / r"
    using rle r1 by (intro divide_left_mono) simp_all
  then have A: "pow2 (ilog2 q) \<le> q"
    using b1 by (simp add: e pow2_neg_exp r_def)
  have "(of_int (2 ^ nat (bitlen n - 1)) :: rat) \<le> of_int n" using lo by (simp only: of_int_le_iff)
  then have "(2 :: rat) ^ nat (bitlen n - 1) \<le> of_int n" by (simp only: of_int_power of_int_numeral)
  moreover have "of_int n < r" using ceiling_correct [of r] by (simp add: n_def)
  ultimately have rgt: "2 ^ nat (bitlen n - 1) < r" by (rule le_less_trans)
  have "1 / r < 1 / 2 ^ nat (bitlen n - 1)"
    using rgt r1 by (intro divide_strict_left_mono) simp_all
  moreover have "pow2 (- bitlen n + 1) = 1 / 2 ^ nat (bitlen n - 1)"
    using b1 by (simp add: pow2_neg_exp)
  ultimately have B: "q < pow2 (ilog2 q + 1)"
    by (simp add: e r_def)
  from A B show ?thesis ..
qed

lemma ilog2_bounds: "0 < q \<Longrightarrow> pow2 (ilog2 q) \<le> q \<and> q < pow2 (ilog2 q + 1)"
  using ilog2_ge1 [of q] ilog2_lt1 [of q] by (cases "1 \<le> q") simp_all


text \<open>Rounding: an integer is kept, and a rounded value exceeds its argument by a half at most.\<close>

lemma round_half_even_of_int: "round_half_even (of_int k) = k"
  by (simp add: round_half_even_def)

lemma round_half_even_upper: "of_int (round_half_even q) \<le> q + 1 / 2"
proof -
  define f where "f = \<lfloor>q\<rfloor>"
  have "of_int f \<le> q" by (simp add: f_def)
  then show ?thesis
    unfolding round_half_even_def Let_def f_def [symmetric] by auto
qed

lemma round_half_even_nonneg: "0 \<le> q \<Longrightarrow> 0 \<le> round_half_even q"
  by (auto simp: round_half_even_def Let_def)

lemma pow2_0: "pow2 0 = 1"
  by (simp add: pow2_def)

lemma ulp_le:
  assumes "0 < q"
  shows "pow2 (max (ilog2 q) (- 1022) - 52) \<le> q + 1"
proof (cases "- 1022 \<le> ilog2 q")
  case True
  then have "pow2 (max (ilog2 q) (- 1022) - 52) = pow2 (ilog2 q - 52)"
    by (simp add: max_def)
  also have "\<dots> \<le> pow2 (ilog2 q)" by (rule pow2_mono) simp
  also have "\<dots> \<le> q" using ilog2_bounds [OF assms] by simp
  finally show ?thesis by simp
next
  case False
  then have "pow2 (max (ilog2 q) (- 1022) - 52) = pow2 (- 1074)"
    by (simp add: max_def)
  also have "\<dots> \<le> pow2 0" by (rule pow2_mono) simp
  finally show ?thesis using assms by (simp add: pow2_0)
qed

lemma fl_pos_finite:
  assumes "0 < q" and "q \<le> 2 ^ 62"
  shows "\<exists>v. fl_pos q = Fin v \<and> 0 \<le> v \<and> v \<le> 2 * q + 1"
proof -
  define u where "u = pow2 (max (ilog2 q) (- 1022) - 52)"
  define v where "v = of_int (round_half_even (q / u)) * u"
  have u: "0 < u" by (simp add: u_def pow2_pos)
  have ule: "u \<le> q + 1" unfolding u_def using assms(1) by (rule ulp_le)
  have "of_int (round_half_even (q / u)) \<le> q / u + 1 / 2" by (rule round_half_even_upper)
  then have "v \<le> (q / u + 1 / 2) * u" unfolding v_def using u by (intro mult_right_mono) simp_all
  also have "\<dots> = q + u / 2" using u by (simp add: field_simps)
  finally have vle: "v \<le> 2 * q + 1" using ule assms(1) by simp
  have "0 \<le> q / u" using assms(1) u by simp
  then have "0 \<le> round_half_even (q / u)" by (rule round_half_even_nonneg)
  then have v0: "0 \<le> v" unfolding v_def using u by simp
  have "v < pow2 1024" using vle assms(2) by (simp add: pow2_def)
  then have "fl_pos q = Fin v" by (simp add: fl_pos_def Let_def u_def v_def)
  with v0 vle show ?thesis by blast
qed

lemma fl_finite:
  assumes "0 \<le> q" and "q \<le> 2 ^ 62"
  shows "\<exists>v. fl q = Fin v \<and> 0 \<le> v \<and> v \<le> 2 * q + 1"
proof (cases "q = 0")
  case True
  then show ?thesis by (simp add: fl_def)
next
  case False
  with assms have "0 < q" by simp
  from fl_pos_finite [OF this assms(2)] \<open>0 < q\<close> show ?thesis by (simp add: fl_def)
qed

lemma fl_nat_exact:
  assumes "n < 2 ^ 53"
  shows "fl (of_nat n) = Fin (of_nat n)"
proof (cases "n = 0")
  case True
  then show ?thesis by (simp add: fl_def)
next
  case False
  define q :: rat where "q = of_nat n"
  define e where "e = ilog2 q"
  have q1: "1 \<le> q" using False by (simp add: q_def)
  then have q0: "0 < q" by simp
  from ilog2_bounds [OF q0] have lo: "pow2 e \<le> q" and hi: "q < pow2 (e + 1)"
    by (simp_all add: e_def)
  have e0: "0 \<le> e"
  proof (rule ccontr)
    assume "\<not> 0 \<le> e"
    then have "pow2 (e + 1) \<le> pow2 0" by (intro pow2_mono) simp
    with hi q1 show False by (simp add: pow2_0)
  qed
  have q53: "q < pow2 53" using assms by (simp add: q_def pow2_def) 
  have e52: "e \<le> 52"
  proof (rule ccontr)
    assume "\<not> e \<le> 52"
    then have "pow2 53 \<le> pow2 e" by (intro pow2_mono) simp
    with lo q53 show False by simp
  qed
  define k where "k = nat (52 - e)"
  have u: "pow2 (max e (- 1022) - 52) = 1 / 2 ^ k"
    using e0 e52 by (simp add: max_def pow2_neg_exp k_def)
  have "of_nat n * 2 ^ k = (of_int (int n * 2 ^ k) :: rat)" by simp
  then have r: "round_half_even (of_nat n * 2 ^ k) = int n * 2 ^ k"
    by (simp only: round_half_even_of_int)
  have v: "of_int (round_half_even (q / (1 / 2 ^ k))) * (1 / 2 ^ k) = q"
    by (simp add: r q_def)
  have "\<not> pow2 1024 \<le> q"
  proof -
    have "pow2 53 \<le> pow2 1024" by (rule pow2_mono) simp
    with q53 show ?thesis by simp
  qed
  then have "fl_pos q = Fin q"
    using u v by (simp add: fl_pos_def Let_def e_def [symmetric])
  then show ?thesis using q0 by (simp add: fl_def q_def)
qed


lemma round_half_even_lower: "q - 1 / 2 \<le> of_int (round_half_even q)"
proof -
  define f where "f = \<lfloor>q\<rfloor>"
  have "q < of_int f + 1" using floor_correct [of q] by (simp add: f_def)
  then show ?thesis
    unfolding round_half_even_def Let_def f_def [symmetric] by auto
qed

lemma pow2_strict_mono: "a < b \<Longrightarrow> pow2 a < pow2 b"
  by (simp add: pow2_powi power_int_strict_increasing)

text \<open>In the range of the normal doubles the relative error of rounding is at most \<open>2^-53\<close>.\<close>

lemma fl_relative_error:
  assumes "pow2 (- 1022) \<le> q" and "q \<le> 2 ^ 62"
  shows "\<exists>v. fl q = Fin v \<and> \<bar>v - q\<bar> \<le> q / 2 ^ 53"
proof -
  have q0: "0 < q" using assms(1) pow2_pos [of "- 1022"] by linarith
  define e where "e = ilog2 q"
  define u where "u = pow2 (e - 52)"
  define v where "v = of_int (round_half_even (q / u)) * u"
  from ilog2_bounds [OF q0] have lo: "pow2 e \<le> q" and hi: "q < pow2 (e + 1)"
    by (simp_all add: e_def)
  have e: "- 1022 \<le> e"
  proof (rule ccontr)
    assume "\<not> - 1022 \<le> e"
    then have "pow2 (e + 1) \<le> pow2 (- 1022)" by (intro pow2_mono) simp
    with hi assms(1) show False by simp
  qed
  have u: "0 < u" by (simp add: u_def pow2_pos)
  have "pow2 e = pow2 (e - 52) * pow2 52" by (simp add: pow2_add [symmetric])
  then have ue: "u * 2 ^ 52 = pow2 e" by (simp add: u_def pow2_def)
  have "of_int (round_half_even (q / u)) \<le> q / u + 1 / 2" by (rule round_half_even_upper)
  then have "v \<le> (q / u + 1 / 2) * u" unfolding v_def using u by (intro mult_right_mono) simp_all
  also have "\<dots> = q + u / 2" using u by (simp add: field_simps)
  finally have up: "v - q \<le> u / 2" by simp
  have "q / u - 1 / 2 \<le> of_int (round_half_even (q / u))" by (rule round_half_even_lower)
  then have "(q / u - 1 / 2) * u \<le> v" unfolding v_def using u by (intro mult_right_mono) simp_all
  moreover have "(q / u - 1 / 2) * u = q - u / 2" using u by (simp add: field_simps)
  ultimately have down: "q - v \<le> u / 2" by simp
  have "u / 2 = pow2 e / 2 ^ 53" using ue by (simp add: field_simps)
  also have "\<dots> \<le> q / 2 ^ 53" using lo by (simp add: divide_right_mono)
  finally have half: "u / 2 \<le> q / 2 ^ 53" .
  have err: "\<bar>v - q\<bar> \<le> q / 2 ^ 53" using up down half by linarith
  have "v \<le> q + q / 2 ^ 53" using err by linarith
  also have "\<dots> \<le> 2 * q" using q0 by (simp add: field_simps)
  also have "\<dots> < pow2 1024" using assms(2) by (simp add: pow2_def)
  finally have "\<not> pow2 1024 \<le> v" by simp
  then have "fl_pos q = Fin v" by (simp add: fl_pos_def Let_def e_def [symmetric] max_absorb1 e u_def v_def)
  with q0 err show ?thesis by (auto simp: fl_def)
qed

text \<open>
  The value of \<open>(p / t) * 100\<close> on doubles, for counters \<open>p < 2^44\<close> and \<open>1 \<le> t < 2^53\<close>:
  it differs from the exact \<open>100 p / t\<close> by less than \<open>1 / (2 t)\<close>, so \<open>Math.round\<close> of it is the
  rounding of the exact quotient unless that lies exactly halfway between two integers, and
  is that or one less in any case.
\<close>

lemma percent_error:
  fixes p t :: nat
  assumes "1 \<le> t" and "t < 2 ^ 53" and "p < 2 ^ 44"
  shows "\<exists>z. js_mul (js_div (Fin (of_nat p)) (Fin (of_nat t))) (Fin 100) = Fin z
    \<and> \<bar>z - 100 * of_nat p / of_nat t\<bar> \<le> 201 * of_nat p / (of_nat t * 2 ^ 53)"
proof (cases "p = 0")
  case True
  then show ?thesis using assms(1) by (simp add: fl_def)
next
  case False
  define x :: rat where "x = of_nat p / of_nat t"
  have t0: "(0 :: rat) < of_nat t" using assms(1) by simp
  have p1: "(1 :: rat) \<le> of_nat p" using False by simp
  have t53: "(of_nat t :: rat) \<le> 2 ^ 53"
    using assms(2) by (metis less_imp_le of_nat_le_iff of_nat_numeral of_nat_power)
  have p44: "(of_nat p :: rat) \<le> 2 ^ 44"
    using assms(3) by (metis less_imp_le of_nat_le_iff of_nat_numeral of_nat_power)
  have "1 / 2 ^ 53 \<le> 1 / (of_nat t :: rat)" using t0 t53 by (intro divide_left_mono) simp_all
  also have "\<dots> \<le> x" unfolding x_def using p1 t0 by (intro divide_right_mono) simp_all
  finally have xlo: "1 / 2 ^ 53 \<le> x" .
  have "x \<le> of_nat p" unfolding x_def using assms(1) t0
    by (simp add: divide_le_eq mult_le_cancel_left1 flip: of_nat_mult)
  then have xhi: "x \<le> 2 ^ 44" using p44 by linarith
  have x0: "0 < x" using xlo by (simp add: less_le_trans [OF _ xlo])
  have n1: "pow2 (- 1022) \<le> x"
  proof -
    have "pow2 (- 1022) \<le> pow2 (- 53)" by (rule pow2_mono) simp
    also have "pow2 (- 53) = 1 / 2 ^ 53" by (simp add: pow2_def)
    finally show ?thesis using xlo by linarith
  qed
  have "x \<le> 2 ^ 62" using xhi by simp
  from fl_relative_error [OF n1 this] obtain y where y: "fl x = Fin y" "\<bar>y - x\<bar> \<le> x / 2 ^ 53"
    by blast
  have ylo: "x / 2 \<le> y"
  proof -
    have "x / 2 ^ 53 \<le> x / 2" using x0 by (intro divide_left_mono) simp_all
    with y(2) show ?thesis by linarith
  qed
  have yhi: "y \<le> 2 * x"
  proof -
    have "x / 2 ^ 53 \<le> x" using x0 by (simp add: field_simps)
    with y(2) show ?thesis by linarith
  qed
  have n2: "pow2 (- 1022) \<le> y * 100"
  proof -
    have "pow2 (- 1022) \<le> x" by (rule n1)
    also have "\<dots> \<le> y * 100" using ylo x0 by linarith
    finally show ?thesis .
  qed
  have "y * 100 \<le> 2 ^ 62" using yhi xhi by simp
  from fl_relative_error [OF n2 this] obtain z where
    z: "fl (y * 100) = Fin z" "\<bar>z - y * 100\<bar> \<le> y * 100 / 2 ^ 53"
    by blast
  have D: "js_div (Fin (of_nat p)) (Fin (of_nat t)) = Fin y"
    using assms(1) y(1) by (simp add: x_def)
  have M: "js_mul (js_div (Fin (of_nat p)) (Fin (of_nat t))) (Fin 100) = Fin z"
    by (simp only: D js_mul.simps z(1))
  have "\<bar>z - 100 * x\<bar> = \<bar>(z - y * 100) + 100 * (y - x)\<bar>" by (simp add: algebra_simps)
  also have "\<dots> \<le> \<bar>z - y * 100\<bar> + \<bar>100 * (y - x)\<bar>" by (rule abs_triangle_ineq)
  also have "\<dots> = \<bar>z - y * 100\<bar> + 100 * \<bar>y - x\<bar>"
  proof -
    have "\<bar>100 * (y - x)\<bar> = 100 * \<bar>y - x\<bar>" by (simp only: abs_mult abs_numeral)
    then show ?thesis by (simp only:)
  qed
  also have "\<dots> \<le> y * 100 / 2 ^ 53 + 100 * (x / 2 ^ 53)"
    using z(2) y(2) by (intro add_mono mult_left_mono) simp_all
  also have "\<dots> \<le> (x + x / 2 ^ 53) * 100 / 2 ^ 53 + 100 * (x / 2 ^ 53)"
  proof -
    have "y \<le> x + x / 2 ^ 53" using y(2) by linarith
    then have "y * 100 / 2 ^ 53 \<le> (x + x / 2 ^ 53) * 100 / 2 ^ 53"
      by (intro divide_right_mono mult_right_mono) simp_all
    then show ?thesis by linarith
  qed
  also have "\<dots> \<le> 201 * x / 2 ^ 53" using x0 by (simp add: field_simps)
  finally have "\<bar>z - 100 * x\<bar> \<le> 201 * x / 2 ^ 53" .
  then have "\<bar>z - 100 * of_nat p / of_nat t\<bar> \<le> 201 * of_nat p / (of_nat t * 2 ^ 53)"
    by (simp add: x_def)
  with M show ?thesis by blast
qed

lemma percent_round:
  fixes p t :: nat
  assumes "1 \<le> t" and "t < 2 ^ 53" and "p < 2 ^ 44"
  shows "((200 * p + t) mod (2 * t) \<noteq> 0 \<longrightarrow>
      Math_round (js_mul (js_div (Fin (of_nat p)) (Fin (of_nat t))) (Fin 100)) =
        Fin (of_int (round (100 * of_nat p / of_nat t :: rat))))
    \<and> (Math_round (js_mul (js_div (Fin (of_nat p)) (Fin (of_nat t))) (Fin 100)) =
          Fin (of_int (round (100 * of_nat p / of_nat t :: rat)))
       \<or> Math_round (js_mul (js_div (Fin (of_nat p)) (Fin (of_nat t))) (Fin 100)) =
          Fin (of_int (round (100 * of_nat p / of_nat t :: rat) - 1)))"
proof -
  define X :: rat where "X = 100 * of_nat p / of_nat t"
  define N :: int where "N = int (200 * p + t)"
  define D :: int where "D = int (2 * t)"
  define m where "m = N div D"
  define r where "r = N mod D"
  define eps :: rat where "eps = 201 * of_nat p / (of_nat t * 2 ^ 53)"
  from percent_error [OF assms] obtain z where
    z: "js_mul (js_div (Fin (of_nat p)) (Fin (of_nat t))) (Fin 100) = Fin z"
      and err: "\<bar>z - X\<bar> \<le> eps"
    by (auto simp: X_def eps_def)
  have t0: "(0 :: rat) < of_nat t" using assms(1) by simp
  have D0: "0 < D" using assms(1) by (simp add: D_def)
  have D0r: "(0 :: rat) < of_int D" using D0 by simp
  have XD: "X + 1 / 2 = of_int N / of_int D"
    using t0 by (simp add: X_def N_def D_def field_simps)
  have ND: "N = m * D + r" by (simp add: m_def r_def)
  have r0: "0 \<le> r" and rD: "r < D" using D0 by (simp_all add: r_def)
  have split: "X + 1 / 2 = of_int m + of_int r / of_int D"
    using D0r by (simp add: XD ND field_simps)
  have m: "round X = m"
    unfolding round_def XD m_def by (rule floor_divide_of_int_eq)
  have "(of_nat p :: rat) < 2 ^ 44"
    using assms(3) by (metis of_nat_less_iff of_nat_numeral of_nat_power)
  then have "402 * (of_nat p :: rat) < 2 ^ 53" by simp
  then have eps: "eps < 1 / of_int D"
    using t0 by (simp add: eps_def D_def field_simps)
  have R: "Math_round (js_mul (js_div (Fin (of_nat p)) (Fin (of_nat t))) (Fin 100)) =
      Fin (of_int \<lfloor>z + 1 / 2\<rfloor>)"
    by (simp only: z Math_round.simps)
  have zlo: "X + 1 / 2 - eps \<le> z + 1 / 2" and zhi: "z + 1 / 2 \<le> X + 1 / 2 + eps"
    using err by (simp_all add: abs_le_iff)
  have off: "r \<noteq> 0 \<longrightarrow> \<lfloor>z + 1 / 2\<rfloor> = m"
  proof
    assume "r \<noteq> 0"
    with r0 rD have r1: "1 \<le> r" and r2: "r \<le> D - 1" by simp_all
    have "1 / of_int D \<le> (of_int r :: rat) / of_int D"
      using r1 D0r by (intro divide_right_mono) simp_all
    then have lo: "of_int m < z + 1 / 2" using split eps zlo by linarith
    have "(of_int r :: rat) \<le> of_int (D - 1)" using r2 by (simp only: of_int_le_iff)
    then have "(of_int r :: rat) / of_int D \<le> of_int (D - 1) / of_int D"
      using D0r by (intro divide_right_mono) simp_all
    also have "\<dots> = 1 - 1 / of_int D" using D0r by (simp add: field_simps)
    finally have "(of_int r :: rat) / of_int D \<le> 1 - 1 / of_int D" .
    then have hi: "z + 1 / 2 < of_int m + 1" using split eps zhi by linarith
    from lo hi show "\<lfloor>z + 1 / 2\<rfloor> = m" by (intro floor_unique) simp_all
  qed
  have tie: "r = 0 \<longrightarrow> \<lfloor>z + 1 / 2\<rfloor> = m \<or> \<lfloor>z + 1 / 2\<rfloor> = m - 1"
  proof
    assume "r = 0"
    then have eq: "X + 1 / 2 = of_int m" using split by simp
    have "1 / of_int D \<le> (1 :: rat)" using D0 by simp
    then have lo: "of_int (m - 1) < z + 1 / 2" and hi: "z + 1 / 2 < of_int m + 1"
      using eq eps zlo zhi by simp_all
    show "\<lfloor>z + 1 / 2\<rfloor> = m \<or> \<lfloor>z + 1 / 2\<rfloor> = m - 1"
    proof (cases "of_int m \<le> z + 1 / 2")
      case True
      with hi have "\<lfloor>z + 1 / 2\<rfloor> = m" by (intro floor_unique) simp_all
      then show ?thesis ..
    next
      case False
      with lo have "\<lfloor>z + 1 / 2\<rfloor> = m - 1" by (intro floor_unique) simp_all
      then show ?thesis ..
    qed
  qed
  have rdef: "((200 * p + t) mod (2 * t) \<noteq> 0) = (r \<noteq> 0)"
    unfolding r_def N_def D_def by (simp only: zmod_int [symmetric] of_nat_eq_0_iff)
  from off tie rdef show ?thesis
    unfolding R m X_def [symmetric] by auto
qed

text \<open>A number of \<open>2^1024\<close> or more rounds to an infinity.\<close>

lemma round_half_even_floor: "\<lfloor>q\<rfloor> \<le> round_half_even q"
  by (simp add: round_half_even_def Let_def)

lemma fl_pos_overflow:
  assumes "pow2 1024 \<le> q"
  shows "fl_pos q = PInf"
proof -
  have q0: "0 < q" using assms pow2_pos [of 1024] by linarith
  define e where "e = ilog2 q"
  define u where "u = pow2 (e - 52)"
  from ilog2_bounds [OF q0] have lo: "pow2 e \<le> q" and hi: "q < pow2 (e + 1)"
    by (simp_all add: e_def)
  have e: "1024 \<le> e"
  proof (rule ccontr)
    assume "\<not> 1024 \<le> e"
    then have "pow2 (e + 1) \<le> pow2 1024" by (intro pow2_mono) simp
    with hi assms show False by simp
  qed
  have u: "0 < u" by (simp add: u_def pow2_pos)
  have "pow2 e = pow2 (e - 52) * pow2 52" by (simp add: pow2_add [symmetric])
  then have ue: "pow2 e = u * 2 ^ 52" by (simp add: u_def pow2_def)
  have "of_int (2 ^ 52) = pow2 e / u" using u ue by simp
  also have "\<dots> \<le> q / u" using lo u by (simp add: divide_right_mono)
  finally have "(2 ^ 52 :: int) \<le> \<lfloor>q / u\<rfloor>" by (simp only: le_floor_iff)
  also have "\<dots> \<le> round_half_even (q / u)" by (rule round_half_even_floor)
  finally have "(of_int (2 ^ 52) :: rat) \<le> of_int (round_half_even (q / u))"
    by (simp only: of_int_le_iff)
  then have "of_int (2 ^ 52) * u \<le> of_int (round_half_even (q / u)) * u"
    using u by (intro mult_right_mono) simp_all
  moreover have "pow2 1024 \<le> pow2 e" using e by (rule pow2_mono)
  ultimately have "pow2 1024 \<le> of_int (round_half_even (q / u)) * u"
    using ue by (simp add: mult.commute)
  then show ?thesis
    using e by (simp add: fl_pos_def Let_def e_def [symmetric] u_def max_absorb1)
qed

lemma json_number_overflow:
  assumes "2 ^ 1024 \<le> n"
  shows "json_number n = PInf"
proof -
  have "(of_nat (2 ^ 1024) :: rat) \<le> of_nat n" using assms by (simp only: of_nat_le_iff)
  then have big: "pow2 1024 \<le> of_nat n" by (simp add: pow2_def)
  then have "(0 :: rat) < of_nat n" using pow2_pos [of 1024] by linarith
  with fl_pos_overflow [OF big] show ?thesis by (simp add: json_number_def fl_def)
qed

lemma json_number_1e400: "json_number (10 ^ 400) = PInf"
proof -
  have "(2 :: nat) ^ 1024 \<le> 2 ^ 1200" by simp
  also have "(2 :: nat) ^ 1200 = (2 ^ 3) ^ 400" by (simp only: power_mult [symmetric]) simp
  also have "\<dots> \<le> 10 ^ 400" by (rule power_mono) simp_all
  finally show ?thesis by (rule json_number_overflow)
qed

section \<open>Properties of the enrichment poll\<close>

lemma showStatus_existing:
  "boxes ident = Some el \<Longrightarrow> message \<noteq> [] \<Longrightarrow>
    showStatus ident message kind boxes ident =
      Some \<lparr>className = ''status-box '' @ kind, innerHTML = message, display = ''block''\<rparr>"
  by (simp add: showStatus_def)

lemma poll_catch_fields:
  "timers (poll_catch m s) = timers s"
  "enrichmentProgressBar (poll_catch m s) = enrichmentProgressBar s"
  "download_enriched_btn (poll_catch m s) = download_enriched_btn s"
  "currentDatasetFile (poll_catch m s) = currentDatasetFile s"
  "datasetInfo (poll_catch m s) = datasetInfo s"
  by (simp_all add: poll_catch_def)

lemma fl_zero: "fl 0 = Fin 0"
  by (simp add: fl_def)

lemma poll_total_nonzero: "poll_total data \<noteq> Fin 0 \<and> poll_total data \<noteq> NaN"
  by (simp add: poll_total_def js_or_number_def split: option.splits)

lemma poll_processed_default:
  "processed data = None \<or> processed data = Some 0 \<Longrightarrow> poll_processed data = Fin 0"
  by (auto simp: poll_processed_def js_or_number_def json_number_def fl_zero)

lemma poll_total_default:
  "total' data = None \<or> total' data = Some 0 \<Longrightarrow> poll_total data = Fin 1"
  by (auto simp: poll_total_def js_or_number_def json_number_def fl_zero)

lemma poll_processed_safe:
  assumes "safe_counter (processed data)"
  shows "poll_processed data = Fin (of_nat (counter_or (processed data) 0))"
  using assms
  by (auto simp: poll_processed_def js_or_number_def json_number_def safe_counter_def fl_nat_exact fl_zero
      counter_or_def split: option.splits)

lemma poll_total_safe:
  assumes "safe_counter (total' data)"
  shows "poll_total data = Fin (of_nat (counter_or (total' data) 1))"
  using assms
  by (auto simp: poll_total_def js_or_number_def json_number_def safe_counter_def fl_nat_exact fl_zero
      counter_or_def split: option.splits)

lemma counter_or_total: "1 \<le> counter_or c 1"
  by (simp add: counter_or_def split: option.splits)

lemma counter_or_safe: "safe_counter c \<Longrightarrow> counter_or c 1 < 2 ^ 53"
  by (simp add: counter_or_def safe_counter_def split: option.splits)

lemma safe_counter_small: "counter_or c 0 < 2 ^ 44 \<Longrightarrow> safe_counter c"
  by (auto simp: counter_or_def safe_counter_def split: option.splits if_splits)

text \<open>
  The percentage against the exact quotient, for \<open>processed\<close> below \<open>2^44\<close> and a safe
  \<open>total\<close>.
\<close>

lemma poll_percent_round:
  assumes "counter_or (processed data) 0 < 2 ^ 44" and "safe_counter (total' data)"
  shows "((200 * counter_or (processed data) 0 + counter_or (total' data) 1)
            mod (2 * counter_or (total' data) 1) \<noteq> 0 \<longrightarrow>
      poll_percent data =
        Fin (of_int (round (100 * of_nat (counter_or (processed data) 0)
          / of_nat (counter_or (total' data) 1) :: rat))))
    \<and> (poll_percent data =
        Fin (of_int (round (100 * of_nat (counter_or (processed data) 0)
          / of_nat (counter_or (total' data) 1) :: rat)))
      \<or> poll_percent data =
        Fin (of_int (round (100 * of_nat (counter_or (processed data) 0)
          / of_nat (counter_or (total' data) 1) :: rat) - 1)))"
  unfolding poll_percent_def poll_processed_safe [OF safe_counter_small [OF assms(1)]]
    poll_total_safe [OF assms(2)]
  by (rule percent_round [OF counter_or_total counter_or_safe [OF assms(2)] assms(1)])

lemma poll_percent_finite:
  assumes "safe_counter (processed data)" and "safe_counter (total' data)"
  shows "\<exists>k. poll_percent data = Fin (of_int k) \<and> 0 \<le> k"
proof -
  define p where "p = counter_or (processed data) 0"
  define t where "t = counter_or (total' data) 1"
  have P: "poll_processed data = Fin (of_nat p)"
    using poll_processed_safe [OF assms(1)] by (simp add: p_def)
  have T: "poll_total data = Fin (of_nat t)"
    using poll_total_safe [OF assms(2)] by (simp add: t_def)
  have p53: "p < 2 ^ 53"
    using assms(1) by (simp add: p_def counter_or_def safe_counter_def split: option.splits)
  have t1: "1 \<le> t" unfolding t_def by (rule counter_or_total)
  have q0: "0 \<le> (of_nat p :: rat) / of_nat t" by simp
  have "(of_nat p :: rat) / of_nat t \<le> of_nat p"
    using t1 by (simp add: divide_le_eq mult_le_cancel_left1 flip: of_nat_mult)
  also have "(of_nat p :: rat) \<le> 2 ^ 53" using p53 by (metis less_imp_le of_nat_le_iff of_nat_numeral of_nat_power)
  finally have q53: "(of_nat p :: rat) / of_nat t \<le> 2 ^ 53" .
  then have "(of_nat p :: rat) / of_nat t \<le> 2 ^ 62" by simp
  from fl_finite [OF q0 this] obtain v where
    v: "fl (of_nat p / of_nat t) = Fin v" "0 \<le> v" "v \<le> 2 * (of_nat p / of_nat t) + 1"
    by blast
  have D: "js_div (poll_processed data) (poll_total data) = Fin v"
    using t1 v(1) by (simp add: P T)
  have v100: "0 \<le> v * 100" using v(2) by simp
  have "v * 100 \<le> (2 * 2 ^ 53 + 1) * 100" using v(3) q53 by simp
  then have "v * 100 \<le> 2 ^ 62" by simp
  from fl_finite [OF v100 this] obtain w where w: "fl (v * 100) = Fin w" "0 \<le> w"
    by blast
  have "poll_percent data = Fin (of_int \<lfloor>w + 1 / 2\<rfloor>)"
    by (simp add: poll_percent_def D w(1))
  moreover have "0 \<le> \<lfloor>w + 1 / 2\<rfloor>" using w(2) by simp
  ultimately show ?thesis by blast
qed

lemma poll_percent_is_finite:
  assumes "safe_counter (processed data)" and "safe_counter (total' data)"
  shows "is_finite (poll_percent data)"
  using poll_percent_finite [OF assms] by auto

text \<open>
  Counters of \<open>10^400\<close>: each is an infinity as a double, so the percentage of such a
  \<open>processed\<close> is an infinity, and with such a \<open>total\<close> too it is \<open>NaN\<close>.
\<close>

lemma percent_overflow:
  assumes "json_number n = PInf"
  shows "poll_percent \<lparr>status = st, error = None, processed = Some n, total' = None, result = None\<rparr>
      = PInf"
    and "poll_percent \<lparr>status = st, error = None, processed = Some n, total' = Some n, result = None\<rparr>
      = NaN"
  by (simp_all add: poll_percent_def poll_processed_def poll_total_def js_or_number_def assms)

lemmas percent_1e400 = percent_overflow [OF json_number_1e400]

lemma poll_completed_always:
  assumes "status data = ''completed''"
  shows "enrichmentProgressBar (pollEnrichmentStatus rt jobId (Parsed data) s) = Fin 100
    \<and> download_enriched_btn (pollEnrichmentStatus rt jobId (Parsed data) s) = ''inline-block''
    \<and> timers (pollEnrichmentStatus rt jobId (Parsed data) s) = timers s"
  using assms
  by (simp add: pollEnrichmentStatus_def Let_def poll_catch_def split: option.splits)

lemma poll_completed_file:
  assumes "status data = ''completed''" and "result data = Some res"
  shows "currentDatasetFile (pollEnrichmentStatus rt jobId (Parsed data) s) = output_file res
    \<and> enrichmentJobId (pollEnrichmentStatus rt jobId (Parsed data) s) = Some jobId"
  using assms
  by (simp add: pollEnrichmentStatus_def Let_def poll_catch_def split: option.splits)

lemma poll_completed_info:
  assumes "status data = ''completed''" and "result data = Some res"
    and "enrichment_stats res = Some stats" and "total_processed stats = Some n"
  shows "datasetInfo (pollEnrichmentStatus rt jobId (Parsed data) s) = EnrichedInfo n (output_file res)"
  using assms by (simp add: pollEnrichmentStatus_def Let_def)

lemma poll_completed_no_result:
  assumes "status data = ''completed''" and "result data = None"
    and "enrichmentStatus s ''enrichmentStatus'' = Some b"
  shows "currentDatasetFile (pollEnrichmentStatus rt jobId (Parsed data) s) = currentDatasetFile s
    \<and> datasetInfo (pollEnrichmentStatus rt jobId (Parsed data) s) = datasetInfo s
    \<and> enrichmentStatus (pollEnrichmentStatus rt jobId (Parsed data) s) ''enrichmentStatus'' =
      Some \<lparr>className = ''status-box error'',
        innerHTML = cross_mark @ '' Error checking status: '' @ type_error_message rt ''output_file'',
        display = ''block''\<rparr>"
  using assms
  by (simp add: pollEnrichmentStatus_def Let_def poll_catch_def showStatus_def cross_mark_def
      check_mark_def)

lemma poll_completed_no_stats:
  assumes "status data = ''completed''" and "result data = Some res"
    and "enrichment_stats res = None" and "enrichmentStatus s ''enrichmentStatus'' = Some b"
  shows "datasetInfo (pollEnrichmentStatus rt jobId (Parsed data) s) = datasetInfo s
    \<and> enrichmentStatus (pollEnrichmentStatus rt jobId (Parsed data) s) ''enrichmentStatus'' =
      Some \<lparr>className = ''status-box error'',
        innerHTML = cross_mark @ '' Error checking status: '' @ type_error_message rt ''total_processed'',
        display = ''block''\<rparr>"
  using assms
  by (simp add: pollEnrichmentStatus_def Let_def poll_catch_def showStatus_def cross_mark_def
      check_mark_def)

lemma poll_completed_no_total:
  assumes "status data = ''completed''" and "result data = Some res"
    and "enrichment_stats res = Some stats" and "total_processed stats = None"
    and "enrichmentStatus s ''enrichmentStatus'' = Some b"
  shows "datasetInfo (pollEnrichmentStatus rt jobId (Parsed data) s) = datasetInfo s
    \<and> enrichmentStatus (pollEnrichmentStatus rt jobId (Parsed data) s) ''enrichmentStatus'' =
      Some \<lparr>className = ''status-box error'',
        innerHTML = cross_mark @ '' Error checking status: '' @ type_error_message rt ''toLocaleString'',
        display = ''block''\<rparr>"
  using assms
  by (simp add: pollEnrichmentStatus_def Let_def poll_catch_def showStatus_def cross_mark_def
      check_mark_def)

lemma poll_failed:
  assumes "status data = ''failed''" and "enrichmentStatus s ''enrichmentStatus'' = Some b"
  shows "enrichmentStatus (pollEnrichmentStatus rt jobId (Parsed data) s) ''enrichmentStatus'' =
      Some \<lparr>className = ''status-box error'', innerHTML = cross_mark @ '' '' @ js_string (error data),
        display = ''block''\<rparr>
    \<and> timers (pollEnrichmentStatus rt jobId (Parsed data) s) = timers s
    \<and> download_enriched_btn (pollEnrichmentStatus rt jobId (Parsed data) s) = download_enriched_btn s
    \<and> enrichmentProgressBar (pollEnrichmentStatus rt jobId (Parsed data) s) = enrichmentProgressBar s"
  using assms by (simp add: pollEnrichmentStatus_def showStatus_existing cross_mark_def)

lemma poll_running:
  assumes "status data \<noteq> ''completed''" and "status data \<noteq> ''failed''"
    and "is_finite (poll_percent data)"
  shows "enrichmentProgressBar (pollEnrichmentStatus rt jobId (Parsed data) s) = poll_percent data
    \<and> timers (pollEnrichmentStatus rt jobId (Parsed data) s) = timers s @ [(2000, PollAgain jobId)]
    \<and> download_enriched_btn (pollEnrichmentStatus rt jobId (Parsed data) s) = download_enriched_btn s"
  using assms by (simp add: pollEnrichmentStatus_def Let_def)

lemma poll_running_non_finite:
  assumes "status data \<noteq> ''completed''" and "status data \<noteq> ''failed''"
    and "\<not> is_finite (poll_percent data)"
  shows "pollEnrichmentStatus rt jobId (Parsed data) s = poll_catch (non_finite_message rt) s"
  using assms by (simp add: pollEnrichmentStatus_def Let_def)

lemma poll_catch_box:
  assumes "enrichmentStatus s ''enrichmentStatus'' = Some b"
  shows "enrichmentStatus (poll_catch m s) ''enrichmentStatus'' =
      Some \<lparr>className = ''status-box error'', innerHTML = cross_mark @ '' Error checking status: '' @ m,
        display = ''block''\<rparr>"
  using assms by (simp add: poll_catch_def showStatus_existing cross_mark_def)

lemma poll_rejected:
  assumes "enrichmentStatus s ''enrichmentStatus'' = Some b"
  shows "enrichmentStatus (pollEnrichmentStatus rt jobId (Rejected m) s) ''enrichmentStatus'' =
      Some \<lparr>className = ''status-box error'', innerHTML = cross_mark @ '' Error checking status: '' @ m,
        display = ''block''\<rparr>
    \<and> timers (pollEnrichmentStatus rt jobId (Rejected m) s) = timers s"
  using assms by (simp add: pollEnrichmentStatus_def poll_catch_def showStatus_existing cross_mark_def)

text \<open>The percentages of the two responses of the example, and of 23 companies out of 40.\<close>

lemma percent_25_of_100:
  "poll_percent \<lparr>status = ''running'', error = None, processed = Some 25, total' = Some 100, result = None\<rparr>
    = Fin 25"
  by (simp add: poll_percent_def poll_processed_def poll_total_def js_number_eval)

lemma percent_80_of_100:
  "poll_percent \<lparr>status = ''running'', error = None, processed = Some 80, total' = Some 100, result = None\<rparr>
    = Fin 80"
  by (simp add: poll_percent_def poll_processed_def poll_total_def js_number_eval)

lemma percent_23_of_40:
  "poll_percent \<lparr>status = ''running'', error = None, processed = Some 23, total' = Some 40, result = None\<rparr>
    = Fin 57"
  by (simp add: poll_percent_def poll_processed_def poll_total_def js_number_eval)

lemma poll_states_example:
  assumes "timers s = []" and "status final = ''completed''"
  shows "map enrichmentProgressBar
      (poll_states rt jobId
        ([Parsed \<lparr>status = ''running'', error = None, processed = Some 25, total' = Some 100, result = None\<rparr>,
          Parsed \<lparr>status = ''running'', error = None, processed = Some 80, total' = Some 100, result = None\<rparr>,
          Parsed final] @ rest) s) = [Fin 25, Fin 80, Fin 100]
    \<and> map download_enriched_btn
      (poll_states rt jobId
        ([Parsed \<lparr>status = ''running'', error = None, processed = Some 25, total' = Some 100, result = None\<rparr>,
          Parsed \<lparr>status = ''running'', error = None, processed = Some 80, total' = Some 100, result = None\<rparr>,
          Parsed final] @ rest) s) = [download_enriched_btn s, download_enriched_btn s, ''inline-block'']"
proof -
  let ?r25 = "\<lparr>status = ''running'', error = None, processed = Some 25, total' = Some 100, result = None\<rparr>"
  let ?r80 = "\<lparr>status = ''running'', error = None, processed = Some 80, total' = Some 100, result = None\<rparr>"
  define s1 where "s1 = pollEnrichmentStatus rt jobId (Parsed ?r25) s"
  define s2 where "s2 = pollEnrichmentStatus rt jobId (Parsed ?r80) (s1\<lparr>timers := []\<rparr>)"
  define s3 where "s3 = pollEnrichmentStatus rt jobId (Parsed final) (s2\<lparr>timers := []\<rparr>)"
  have s1: "enrichmentProgressBar s1 = Fin 25" "timers s1 = [(2000, PollAgain jobId)]"
    "download_enriched_btn s1 = download_enriched_btn s"
    using poll_running [of ?r25 rt jobId s] assms(1) by (simp_all add: s1_def percent_25_of_100)
  have s2: "enrichmentProgressBar s2 = Fin 80" "timers s2 = [(2000, PollAgain jobId)]"
    "download_enriched_btn s2 = download_enriched_btn s"
    using poll_running [of ?r80 rt jobId "s1\<lparr>timers := []\<rparr>"] s1(3)
    by (simp_all add: s2_def percent_80_of_100)
  have s3: "enrichmentProgressBar s3 = Fin 100" "timers s3 = []"
    "download_enriched_btn s3 = ''inline-block''"
    using poll_completed_always [OF assms(2), of rt jobId "s2\<lparr>timers := []\<rparr>"]
    by (simp_all add: s3_def)
  have "poll_states rt jobId ([Parsed ?r25, Parsed ?r80, Parsed final] @ rest) s = [s1, s2, s3]"
    using s1(2) s2(2) s3(2)
    by (cases rest) (simp_all add: Let_def s1_def [symmetric] s2_def [symmetric] s3_def [symmetric])
  then show ?thesis by (simp add: s1 s2 s3)
qed

text \<open>
  C1, as the code has it. One poll whose request is answered, on a page that has the status
  box:
  \<^item> status \<open>completed\<close>: the progress bar is set to 100, the download button is shown and no
    timer is scheduled; when the response carries the result, the current dataset file is set
    to its output file, and when the result carries its statistics with the number processed,
    so is the dataset card; a response without result, a result without statistics, or
    statistics without that number leave the dataset card as it was, and the status box
    shows the error of the property read;
  \<^item> status \<open>failed\<close>: the status box shows the error of the response as an error, no timer is
    scheduled, the download button and the progress bar are left as they were;
  \<^item> any other status: when \<open>Math.round((processed / total) * 100)\<close>, computed on doubles
    with the defaults 0 and 1, is finite, the progress bar is set to it, one timer of 2000 ms
    that polls the same job again is scheduled, and the download button is left as it was;
    when it is not finite, the assignment to the progress bar throws, the status box shows
    that error, and neither a timer is scheduled nor the progress bar changed. For counters
    below \<open>2^53\<close> the percentage is finite, an integer that is not negative. For \<open>processed\<close>
    below \<open>2^44\<close> and \<open>total\<close> below \<open>2^53\<close> it is \<open>round(100 * processed / total)\<close>
    whenever the exact quotient is not halfway between two integers, and is that or one less
    in any case.

  For the responses running (25 of 100), running (80 of 100), completed, the progress bar
  reads 25, then 80, then 100, the download button is shown by the third poll only, and no
  poll follows the third whatever further responses the server would give.
\<close>

theorem pollEnrichmentStatus_outcomes:
  assumes "enrichmentStatus s ''enrichmentStatus'' = Some b"
  shows "(let s' = pollEnrichmentStatus rt jobId (Parsed data) s in
    (status data = ''completed'' \<longrightarrow>
       enrichmentProgressBar s' = Fin 100 \<and> download_enriched_btn s' = ''inline-block''
       \<and> timers s' = timers s)
    \<and> (status data = ''completed'' \<and> result data = Some res \<longrightarrow>
       currentDatasetFile s' = output_file res)
    \<and> (status data = ''completed'' \<and> result data = Some res \<and> enrichment_stats res = Some stats
         \<and> total_processed stats = Some n \<longrightarrow>
       datasetInfo s' = EnrichedInfo n (output_file res))
    \<and> (status data = ''completed'' \<and> result data = None \<longrightarrow>
       currentDatasetFile s' = currentDatasetFile s \<and> datasetInfo s' = datasetInfo s
       \<and> enrichmentStatus s' ''enrichmentStatus'' =
         Some \<lparr>className = ''status-box error'',
           innerHTML = cross_mark @ '' Error checking status: '' @ type_error_message rt ''output_file'',
           display = ''block''\<rparr>)
    \<and> (status data = ''completed'' \<and> result data = Some res \<and> enrichment_stats res = None \<longrightarrow>
       datasetInfo s' = datasetInfo s
       \<and> enrichmentStatus s' ''enrichmentStatus'' =
         Some \<lparr>className = ''status-box error'',
           innerHTML = cross_mark @ '' Error checking status: '' @ type_error_message rt ''total_processed'',
           display = ''block''\<rparr>)
    \<and> (status data = ''completed'' \<and> result data = Some res \<and> enrichment_stats res = Some stats
         \<and> total_processed stats = None \<longrightarrow>
       datasetInfo s' = datasetInfo s
       \<and> enrichmentStatus s' ''enrichmentStatus'' =
         Some \<lparr>className = ''status-box error'',
           innerHTML = cross_mark @ '' Error checking status: '' @ type_error_message rt ''toLocaleString'',
           display = ''block''\<rparr>)
    \<and> (status data = ''failed'' \<longrightarrow>
       enrichmentStatus s' ''enrichmentStatus'' =
         Some \<lparr>className = ''status-box error'', innerHTML = cross_mark @ '' '' @ js_string (error data),
           display = ''block''\<rparr>
       \<and> timers s' = timers s
       \<and> download_enriched_btn s' = download_enriched_btn s
       \<and> enrichmentProgressBar s' = enrichmentProgressBar s)
    \<and> (status data \<noteq> ''completed'' \<and> status data \<noteq> ''failed'' \<and> is_finite (poll_percent data) \<longrightarrow>
       enrichmentProgressBar s' =
         Math_round (js_mul (js_div (poll_processed data) (poll_total data)) (Fin 100))
       \<and> timers s' = timers s @ [(2000, PollAgain jobId)]
       \<and> download_enriched_btn s' = download_enriched_btn s)
    \<and> (status data \<noteq> ''completed'' \<and> status data \<noteq> ''failed'' \<and> \<not> is_finite (poll_percent data) \<longrightarrow>
       enrichmentStatus s' ''enrichmentStatus'' =
         Some \<lparr>className = ''status-box error'',
           innerHTML = cross_mark @ '' Error checking status: '' @ non_finite_message rt,
           display = ''block''\<rparr>
       \<and> timers s' = timers s
       \<and> download_enriched_btn s' = download_enriched_btn s
       \<and> enrichmentProgressBar s' = enrichmentProgressBar s)
    \<and> (status data \<noteq> ''completed'' \<and> status data \<noteq> ''failed''
         \<and> safe_counter (processed data) \<and> safe_counter (total' data) \<longrightarrow>
       (\<exists>k. 0 \<le> k \<and> enrichmentProgressBar s' = Fin (of_int k))
       \<and> timers s' = timers s @ [(2000, PollAgain jobId)])
    \<and> (status data \<noteq> ''completed'' \<and> status data \<noteq> ''failed''
         \<and> counter_or (processed data) 0 < 2 ^ 44 \<and> safe_counter (total' data) \<longrightarrow>
       ((200 * counter_or (processed data) 0 + counter_or (total' data) 1)
           mod (2 * counter_or (total' data) 1) \<noteq> 0 \<longrightarrow>
         enrichmentProgressBar s' =
           Fin (of_int (round (100 * of_nat (counter_or (processed data) 0)
             / of_nat (counter_or (total' data) 1) :: rat))))
       \<and> (enrichmentProgressBar s' =
           Fin (of_int (round (100 * of_nat (counter_or (processed data) 0)
             / of_nat (counter_or (total' data) 1) :: rat)))
         \<or> enrichmentProgressBar s' =
           Fin (of_int (round (100 * of_nat (counter_or (processed data) 0)
             / of_nat (counter_or (total' data) 1) :: rat) - 1)))))
    \<and> (timers s = [] \<and> status final = ''completed'' \<longrightarrow>
       map enrichmentProgressBar
         (poll_states rt jobId
           ([Parsed \<lparr>status = ''running'', error = None, processed = Some 25, total' = Some 100,
               result = None\<rparr>,
             Parsed \<lparr>status = ''running'', error = None, processed = Some 80, total' = Some 100,
               result = None\<rparr>,
             Parsed final] @ rest) s) = [Fin 25, Fin 80, Fin 100]
       \<and> map download_enriched_btn
         (poll_states rt jobId
           ([Parsed \<lparr>status = ''running'', error = None, processed = Some 25, total' = Some 100,
               result = None\<rparr>,
             Parsed \<lparr>status = ''running'', error = None, processed = Some 80, total' = Some 100,
               result = None\<rparr>,
             Parsed final] @ rest) s) = [download_enriched_btn s, download_enriched_btn s, ''inline-block''])"
proof -
  let ?s' = "pollEnrichmentStatus rt jobId (Parsed data) s"
  have completed: "status data = ''completed'' \<longrightarrow>
      enrichmentProgressBar ?s' = Fin 100 \<and> download_enriched_btn ?s' = ''inline-block''
      \<and> timers ?s' = timers s"
    using poll_completed_always [of data rt jobId s] by blast
  have payload: "status data = ''completed'' \<and> result data = Some res \<longrightarrow>
      currentDatasetFile ?s' = output_file res"
    using poll_completed_file [of data res rt jobId s] by blast
  have info: "status data = ''completed'' \<and> result data = Some res \<and> enrichment_stats res = Some stats
        \<and> total_processed stats = Some n \<longrightarrow>
      datasetInfo ?s' = EnrichedInfo n (output_file res)"
    using poll_completed_info [of data res stats n rt jobId s] by blast
  have no_result: "status data = ''completed'' \<and> result data = None \<longrightarrow>
      currentDatasetFile ?s' = currentDatasetFile s \<and> datasetInfo ?s' = datasetInfo s
      \<and> enrichmentStatus ?s' ''enrichmentStatus'' =
        Some \<lparr>className = ''status-box error'',
          innerHTML = cross_mark @ '' Error checking status: '' @ type_error_message rt ''output_file'',
          display = ''block''\<rparr>"
    using poll_completed_no_result [of data s b rt jobId] assms by blast
  have no_stats: "status data = ''completed'' \<and> result data = Some res \<and> enrichment_stats res = None \<longrightarrow>
      datasetInfo ?s' = datasetInfo s
      \<and> enrichmentStatus ?s' ''enrichmentStatus'' =
        Some \<lparr>className = ''status-box error'',
          innerHTML = cross_mark @ '' Error checking status: '' @ type_error_message rt ''total_processed'',
          display = ''block''\<rparr>"
    using poll_completed_no_stats [of data res s b rt jobId] assms by blast
  have no_total: "status data = ''completed'' \<and> result data = Some res \<and> enrichment_stats res = Some stats
        \<and> total_processed stats = None \<longrightarrow>
      datasetInfo ?s' = datasetInfo s
      \<and> enrichmentStatus ?s' ''enrichmentStatus'' =
        Some \<lparr>className = ''status-box error'',
          innerHTML = cross_mark @ '' Error checking status: '' @ type_error_message rt ''toLocaleString'',
          display = ''block''\<rparr>"
    using poll_completed_no_total [of data res stats s b rt jobId] assms by blast
  have failed: "status data = ''failed'' \<longrightarrow>
      enrichmentStatus ?s' ''enrichmentStatus'' =
        Some \<lparr>className = ''status-box error'', innerHTML = cross_mark @ '' '' @ js_string (error data),
          display = ''block''\<rparr>
      \<and> timers ?s' = timers s
      \<and> download_enriched_btn ?s' = download_enriched_btn s
      \<and> enrichmentProgressBar ?s' = enrichmentProgressBar s"
    using poll_failed [of data s b rt jobId] assms by blast
  have running: "status data \<noteq> ''completed'' \<and> status data \<noteq> ''failed'' \<and> is_finite (poll_percent data) \<longrightarrow>
      enrichmentProgressBar ?s' =
        Math_round (js_mul (js_div (poll_processed data) (poll_total data)) (Fin 100))
      \<and> timers ?s' = timers s @ [(2000, PollAgain jobId)]
      \<and> download_enriched_btn ?s' = download_enriched_btn s"
    using poll_running [of data rt jobId s] by (simp add: poll_percent_def)
  have thrown: "status data \<noteq> ''completed'' \<and> status data \<noteq> ''failed'' \<and> \<not> is_finite (poll_percent data) \<longrightarrow>
      enrichmentStatus ?s' ''enrichmentStatus'' =
        Some \<lparr>className = ''status-box error'',
          innerHTML = cross_mark @ '' Error checking status: '' @ non_finite_message rt,
          display = ''block''\<rparr>
      \<and> timers ?s' = timers s
      \<and> download_enriched_btn ?s' = download_enriched_btn s
      \<and> enrichmentProgressBar ?s' = enrichmentProgressBar s"
    using poll_running_non_finite [of data rt jobId s] poll_catch_box [OF assms, of "non_finite_message rt"]
    by (simp add: poll_catch_fields)
  have safe: "status data \<noteq> ''completed'' \<and> status data \<noteq> ''failed''
        \<and> safe_counter (processed data) \<and> safe_counter (total' data) \<longrightarrow>
      (\<exists>k. 0 \<le> k \<and> enrichmentProgressBar ?s' = Fin (of_int k))
      \<and> timers ?s' = timers s @ [(2000, PollAgain jobId)]"
  proof (intro impI, elim conjE)
    assume a: "status data \<noteq> ''completed''" "status data \<noteq> ''failed''"
      "safe_counter (processed data)" "safe_counter (total' data)"
    from poll_running [OF a(1,2) poll_percent_is_finite [OF a(3,4)], of rt jobId s]
    have bar: "enrichmentProgressBar ?s' = poll_percent data"
      and t: "timers ?s' = timers s @ [(2000, PollAgain jobId)]"
      by simp_all
    from poll_percent_finite [OF a(3,4)] bar t
    show "(\<exists>k. 0 \<le> k \<and> enrichmentProgressBar ?s' = Fin (of_int k))
      \<and> timers ?s' = timers s @ [(2000, PollAgain jobId)]"
      by auto
  qed
  have rounded: "status data \<noteq> ''completed'' \<and> status data \<noteq> ''failed''
        \<and> counter_or (processed data) 0 < 2 ^ 44 \<and> safe_counter (total' data) \<longrightarrow>
      ((200 * counter_or (processed data) 0 + counter_or (total' data) 1)
          mod (2 * counter_or (total' data) 1) \<noteq> 0 \<longrightarrow>
        enrichmentProgressBar ?s' =
          Fin (of_int (round (100 * of_nat (counter_or (processed data) 0)
            / of_nat (counter_or (total' data) 1) :: rat))))
      \<and> (enrichmentProgressBar ?s' =
          Fin (of_int (round (100 * of_nat (counter_or (processed data) 0)
            / of_nat (counter_or (total' data) 1) :: rat)))
        \<or> enrichmentProgressBar ?s' =
          Fin (of_int (round (100 * of_nat (counter_or (processed data) 0)
            / of_nat (counter_or (total' data) 1) :: rat) - 1)))"
  proof (intro impI, elim conjE)
    assume a: "status data \<noteq> ''completed''" "status data \<noteq> ''failed''"
      "counter_or (processed data) 0 < 2 ^ 44" "safe_counter (total' data)"
    from poll_running [OF a(1,2) poll_percent_is_finite [OF safe_counter_small [OF a(3)] a(4)], of rt jobId s]
    have bar: "enrichmentProgressBar ?s' = poll_percent data"
      by simp
    show "((200 * counter_or (processed data) 0 + counter_or (total' data) 1)
          mod (2 * counter_or (total' data) 1) \<noteq> 0 \<longrightarrow>
        enrichmentProgressBar ?s' =
          Fin (of_int (round (100 * of_nat (counter_or (processed data) 0)
            / of_nat (counter_or (total' data) 1) :: rat))))
      \<and> (enrichmentProgressBar ?s' =
          Fin (of_int (round (100 * of_nat (counter_or (processed data) 0)
            / of_nat (counter_or (total' data) 1) :: rat)))
        \<or> enrichmentProgressBar ?s' =
          Fin (of_int (round (100 * of_nat (counter_or (processed data) 0)
            / of_nat (counter_or (total' data) 1) :: rat) - 1)))"
      unfolding bar by (rule poll_percent_round [OF a(3,4)])
  qed
  note example = poll_states_example [of s final rt jobId rest]
  show ?thesis
    unfolding Let_def
    by (intro conjI completed payload info no_result no_stats no_total failed running thrown safe rounded)
      (use example in blast)
qed

theorem pollEnrichmentStatus_outcomes_witness:
  "enrichmentProgressBar
      (pollEnrichmentStatus \<lparr>number_to_string = (\<lambda>x. ''n''), type_error_message = (\<lambda>p. p),
          non_finite_message = ''not finite''\<rparr> ''job-1''
        (Parsed \<lparr>status = ''completed'', error = None, processed = None, total' = None,
           result = Some \<lparr>output_file = Some ''enriched.parquet'',
             enrichment_stats = Some \<lparr>total_processed = Some 40, coverage = None\<rparr>\<rparr>\<rparr>)
        \<lparr>enrichmentStatus = [''enrichmentStatus'' \<mapsto> \<lparr>className = ''status-box'', innerHTML = [], display = ''none''\<rparr>],
         enrichmentProgressBar = Fin 0, download_enriched_btn = ''none'',
         currentDatasetFile = Some ''raw.parquet'', enrichmentJobId = None,
         datasetInfo = ExtractedInfo 40 ''raw.parquet'', coverageStats = NoCoverage, timers = []\<rparr>) = Fin 100
   \<and> currentDatasetFile
      (pollEnrichmentStatus \<lparr>number_to_string = (\<lambda>x. ''n''), type_error_message = (\<lambda>p. p),
          non_finite_message = ''not finite''\<rparr> ''job-1''
        (Parsed \<lparr>status = ''completed'', error = None, processed = None, total' = None,
           result = Some \<lparr>output_file = Some ''enriched.parquet'',
             enrichment_stats = Some \<lparr>total_processed = Some 40, coverage = None\<rparr>\<rparr>\<rparr>)
        \<lparr>enrichmentStatus = [''enrichmentStatus'' \<mapsto> \<lparr>className = ''status-box'', innerHTML = [], display = ''none''\<rparr>],
         enrichmentProgressBar = Fin 0, download_enriched_btn = ''none'',
         currentDatasetFile = Some ''raw.parquet'', enrichmentJobId = None,
         datasetInfo = ExtractedInfo 40 ''raw.parquet'', coverageStats = NoCoverage, timers = []\<rparr>)
      = Some ''enriched.parquet''
   \<and> timers
      (pollEnrichmentStatus \<lparr>number_to_string = (\<lambda>x. ''n''), type_error_message = (\<lambda>p. p),
          non_finite_message = ''not finite''\<rparr> ''job-1''
        (Parsed \<lparr>status = ''failed'', error = Some ''quota exceeded'', processed = None, total' = None,
           result = None\<rparr>)
        \<lparr>enrichmentStatus = [''enrichmentStatus'' \<mapsto> \<lparr>className = ''status-box'', innerHTML = [], display = ''none''\<rparr>],
         enrichmentProgressBar = Fin 0, download_enriched_btn = ''none'',
         currentDatasetFile = Some ''raw.parquet'', enrichmentJobId = None,
         datasetInfo = ExtractedInfo 40 ''raw.parquet'', coverageStats = NoCoverage, timers = []\<rparr>) = []
   \<and> timers
      (pollEnrichmentStatus \<lparr>number_to_string = (\<lambda>x. ''n''), type_error_message = (\<lambda>p. p),
          non_finite_message = ''not finite''\<rparr> ''job-1''
        (Parsed \<lparr>status = ''running'', error = None, processed = Some 25, total' = Some 100,
           result = None\<rparr>)
        \<lparr>enrichmentStatus = [''enrichmentStatus'' \<mapsto> \<lparr>className = ''status-box'', innerHTML = [], display = ''none''\<rparr>],
         enrichmentProgressBar = Fin 0, download_enriched_btn = ''none'',
         currentDatasetFile = Some ''raw.parquet'', enrichmentJobId = None,
         datasetInfo = ExtractedInfo 40 ''raw.parquet'', coverageStats = NoCoverage, timers = []\<rparr>)
      = [(2000, PollAgain ''job-1'')]
   \<and> enrichmentProgressBar
      (pollEnrichmentStatus \<lparr>number_to_string = (\<lambda>x. ''n''), type_error_message = (\<lambda>p. p),
          non_finite_message = ''not finite''\<rparr> ''job-1''
        (Parsed \<lparr>status = ''running'', error = None, processed = Some 25, total' = Some 100,
           result = None\<rparr>)
        \<lparr>enrichmentStatus = [''enrichmentStatus'' \<mapsto> \<lparr>className = ''status-box'', innerHTML = [], display = ''none''\<rparr>],
         enrichmentProgressBar = Fin 0, download_enriched_btn = ''none'',
         currentDatasetFile = Some ''raw.parquet'', enrichmentJobId = None,
         datasetInfo = ExtractedInfo 40 ''raw.parquet'', coverageStats = NoCoverage, timers = []\<rparr>)
      = Fin 25
   \<and> map download_enriched_btn
      (poll_states \<lparr>number_to_string = (\<lambda>x. ''n''), type_error_message = (\<lambda>p. p),
          non_finite_message = ''not finite''\<rparr> ''job-1''
        [Parsed \<lparr>status = ''running'', error = None, processed = Some 25, total' = Some 100, result = None\<rparr>,
         Parsed \<lparr>status = ''running'', error = None, processed = Some 80, total' = Some 100, result = None\<rparr>,
         Parsed \<lparr>status = ''completed'', error = None, processed = None, total' = None,
           result = Some \<lparr>output_file = Some ''enriched.parquet'',
             enrichment_stats = Some \<lparr>total_processed = Some 40, coverage = None\<rparr>\<rparr>\<rparr>]
        \<lparr>enrichmentStatus = [''enrichmentStatus'' \<mapsto> \<lparr>className = ''status-box'', innerHTML = [], display = ''none''\<rparr>],
         enrichmentProgressBar = Fin 0, download_enriched_btn = ''none'',
         currentDatasetFile = Some ''raw.parquet'', enrichmentJobId = None,
         datasetInfo = ExtractedInfo 40 ''raw.parquet'', coverageStats = NoCoverage, timers = []\<rparr>)
      = [''none'', ''none'', ''inline-block'']
   \<and> datasetInfo
      (pollEnrichmentStatus \<lparr>number_to_string = (\<lambda>x. ''n''), type_error_message = (\<lambda>p. p),
          non_finite_message = ''not finite''\<rparr> ''job-1''
        (Parsed \<lparr>status = ''completed'', error = None, processed = None, total' = None,
           result = Some \<lparr>output_file = Some ''enriched.parquet'', enrichment_stats = None\<rparr>\<rparr>)
        \<lparr>enrichmentStatus = [''enrichmentStatus'' \<mapsto> \<lparr>className = ''status-box'', innerHTML = [], display = ''none''\<rparr>],
         enrichmentProgressBar = Fin 0, download_enriched_btn = ''none'',
         currentDatasetFile = Some ''raw.parquet'', enrichmentJobId = None,
         datasetInfo = ExtractedInfo 40 ''raw.parquet'', coverageStats = NoCoverage, timers = []\<rparr>)
      = ExtractedInfo 40 ''raw.parquet''
   \<and> timers
      (pollEnrichmentStatus \<lparr>number_to_string = (\<lambda>x. ''n''), type_error_message = (\<lambda>p. p),
          non_finite_message = ''not finite''\<rparr> ''job-1''
        (Parsed \<lparr>status = ''running'', error = None, processed = Some (10 ^ 400), total' = None,
           result = None\<rparr>)
        \<lparr>enrichmentStatus = [''enrichmentStatus'' \<mapsto> \<lparr>className = ''status-box'', innerHTML = [], display = ''none''\<rparr>],
         enrichmentProgressBar = Fin 0, download_enriched_btn = ''none'',
         currentDatasetFile = Some ''raw.parquet'', enrichmentJobId = None,
         datasetInfo = ExtractedInfo 40 ''raw.parquet'', coverageStats = NoCoverage, timers = []\<rparr>) = []"
proof -
  let ?rt = "\<lparr>number_to_string = (\<lambda>x. ''n''), type_error_message = (\<lambda>p. p),
          non_finite_message = ''not finite''\<rparr>"
  let ?s = "\<lparr>enrichmentStatus = [''enrichmentStatus'' \<mapsto> \<lparr>className = ''status-box'', innerHTML = [], display = ''none''\<rparr>],
         enrichmentProgressBar = Fin 0, download_enriched_btn = ''none'',
         currentDatasetFile = Some ''raw.parquet'', enrichmentJobId = None,
         datasetInfo = ExtractedInfo 40 ''raw.parquet'', coverageStats = NoCoverage, timers = []\<rparr>"
  let ?stats = "\<lparr>total_processed = Some 40, coverage = None\<rparr>"
  let ?res = "\<lparr>output_file = Some ''enriched.parquet'', enrichment_stats = Some ?stats\<rparr>"
  let ?completed = "\<lparr>status = ''completed'', error = None, processed = None, total' = None,
      result = Some ?res\<rparr>"
  let ?failed = "\<lparr>status = ''failed'', error = Some ''quota exceeded'', processed = None, total' = None,
      result = None\<rparr>"
  let ?running = "\<lparr>status = ''running'', error = None, processed = Some 25, total' = Some 100,
      result = None\<rparr>"
  let ?nostats = "\<lparr>output_file = Some ''enriched.parquet'', enrichment_stats = None\<rparr>"
  let ?bare = "\<lparr>status = ''completed'', error = None, processed = None, total' = None,
      result = Some ?nostats\<rparr>"
  let ?big = "\<lparr>status = ''running'', error = None, processed = Some (10 ^ 400), total' = None,
      result = None\<rparr>"
  have big: "\<not> is_finite (poll_percent ?big)"
    by (simp only: percent_1e400 is_finite.simps not_False_eq_True)
  have st: "status ?big \<noteq> ''completed''" "status ?big \<noteq> ''failed''"
    by (simp_all only: status_response.simps) simp_all
  have box: "enrichmentStatus ?s ''enrichmentStatus'' =
      Some \<lparr>className = ''status-box'', innerHTML = [], display = ''none''\<rparr>"
    by simp
  note T = pollEnrichmentStatus_outcomes [OF box, unfolded Let_def]
  from T [where data = "?completed" and res = "?res" and stats = "?stats" and n = 40 and rt = "?rt"
      and jobId = "''job-1''" and final = "?completed" and rest = "[]"]
  have "enrichmentProgressBar (pollEnrichmentStatus ?rt ''job-1'' (Parsed ?completed) ?s) = Fin 100"
    and "currentDatasetFile (pollEnrichmentStatus ?rt ''job-1'' (Parsed ?completed) ?s)
      = Some ''enriched.parquet''"
    and "map download_enriched_btn
      (poll_states ?rt ''job-1''
        [Parsed \<lparr>status = ''running'', error = None, processed = Some 25, total' = Some 100, result = None\<rparr>,
         Parsed \<lparr>status = ''running'', error = None, processed = Some 80, total' = Some 100, result = None\<rparr>,
         Parsed ?completed] ?s) = [''none'', ''none'', ''inline-block'']"
    by simp_all
  moreover from T [where data = "?failed" and res = "?res" and stats = "?stats" and n = 40 and rt = "?rt"
      and jobId = "''job-1''" and final = "?completed" and rest = "[]"]
  have "timers (pollEnrichmentStatus ?rt ''job-1'' (Parsed ?failed) ?s) = []"
    by simp
  moreover from T [where data = "?running" and res = "?res" and stats = "?stats" and n = 40 and rt = "?rt"
      and jobId = "''job-1''" and final = "?completed" and rest = "[]"]
  have "timers (pollEnrichmentStatus ?rt ''job-1'' (Parsed ?running) ?s) = [(2000, PollAgain ''job-1'')]"
    and "enrichmentProgressBar (pollEnrichmentStatus ?rt ''job-1'' (Parsed ?running) ?s) = Fin 25"
    by (simp_all add: counter_or_def safe_counter_def percent_25_of_100 flip: poll_percent_def)
  moreover from T [where data = "?bare" and res = "?nostats" and stats = "?stats" and n = 40 and rt = "?rt"
      and jobId = "''job-1''" and final = "?completed" and rest = "[]"]
  have "datasetInfo (pollEnrichmentStatus ?rt ''job-1'' (Parsed ?bare) ?s) = ExtractedInfo 40 ''raw.parquet''"
    by simp
  moreover from T [where data = "?big" and rt = "?rt" and jobId = "''job-1''"] big st
  have "timers (pollEnrichmentStatus ?rt ''job-1'' (Parsed ?big) ?s) = timers ?s"
    by blast
  then have "timers (pollEnrichmentStatus ?rt ''job-1'' (Parsed ?big) ?s) = []"
    by (simp only: enrich_page.simps)
  ultimately show ?thesis
    by blast
qed

text \<open>
  C1 as stated fails in three places.
  \<^item> The doubles round differently from the exact quotient: with 23 of 40 companies processed,
    \<open>23 / 40\<close> is a double just below 0.575, its product with 100 is the double just below
    57.5, and the progress bar reads 57, whereas \<open>round(100 * 23 / 40) = round(57.5) = 58\<close>.
  \<^item> A completed response whose result names the output file and carries no statistics: the
    current dataset file is set, the read of \<open>total_processed\<close> throws, the dataset card still
    shows the file it showed before, and the status box shows the error.
  \<^item> A running response with \<open>processed = 1e400\<close>: the percentage is an infinity, the
    assignment to the progress bar throws, and no poll is scheduled.
\<close>

theorem pollEnrichmentStatus_as_stated_fails:
  "enrichmentProgressBar
      (pollEnrichmentStatus \<lparr>number_to_string = (\<lambda>x. ''n''), type_error_message = (\<lambda>p. p),
          non_finite_message = ''not finite''\<rparr> ''job-1''
        (Parsed \<lparr>status = ''running'', error = None, processed = Some 23, total' = Some 40,
           result = None\<rparr>)
        \<lparr>enrichmentStatus = [''enrichmentStatus'' \<mapsto> \<lparr>className = ''status-box'', innerHTML = [], display = ''none''\<rparr>],
         enrichmentProgressBar = Fin 0, download_enriched_btn = ''none'',
         currentDatasetFile = Some ''raw.parquet'', enrichmentJobId = None,
         datasetInfo = ExtractedInfo 40 ''raw.parquet'', coverageStats = NoCoverage, timers = []\<rparr>) = Fin 57
   \<and> round (100 * 23 / 40 :: rat) = 58
   \<and> Fin 57 \<noteq> Fin (of_int (round (100 * 23 / 40 :: rat)))
   \<and> datasetInfo
      (pollEnrichmentStatus \<lparr>number_to_string = (\<lambda>x. ''n''), type_error_message = (\<lambda>p. p),
          non_finite_message = ''not finite''\<rparr> ''job-1''
        (Parsed \<lparr>status = ''completed'', error = None, processed = None, total' = None,
           result = Some \<lparr>output_file = Some ''enriched.parquet'', enrichment_stats = None\<rparr>\<rparr>)
        \<lparr>enrichmentStatus = [''enrichmentStatus'' \<mapsto> \<lparr>className = ''status-box'', innerHTML = [], display = ''none''\<rparr>],
         enrichmentProgressBar = Fin 0, download_enriched_btn = ''none'',
         currentDatasetFile = Some ''raw.parquet'', enrichmentJobId = None,
         datasetInfo = ExtractedInfo 40 ''raw.parquet'', coverageStats = NoCoverage, timers = []\<rparr>) = ExtractedInfo 40 ''raw.parquet''
   \<and> currentDatasetFile
      (pollEnrichmentStatus \<lparr>number_to_string = (\<lambda>x. ''n''), type_error_message = (\<lambda>p. p),
          non_finite_message = ''not finite''\<rparr> ''job-1''
        (Parsed \<lparr>status = ''completed'', error = None, processed = None, total' = None,
           result = Some \<lparr>output_file = Some ''enriched.parquet'', enrichment_stats = None\<rparr>\<rparr>)
        \<lparr>enrichmentStatus = [''enrichmentStatus'' \<mapsto> \<lparr>className = ''status-box'', innerHTML = [], display = ''none''\<rparr>],
         enrichmentProgressBar = Fin 0, download_enriched_btn = ''none'',
         currentDatasetFile = Some ''raw.parquet'', enrichmentJobId = None,
         datasetInfo = ExtractedInfo 40 ''raw.parquet'', coverageStats = NoCoverage, timers = []\<rparr>) = Some ''enriched.parquet''
   \<and> enrichmentStatus
      (pollEnrichmentStatus \<lparr>number_to_string = (\<lambda>x. ''n''), type_error_message = (\<lambda>p. p),
          non_finite_message = ''not finite''\<rparr> ''job-1''
        (Parsed \<lparr>status = ''completed'', error = None, processed = None, total' = None,
           result = Some \<lparr>output_file = Some ''enriched.parquet'', enrichment_stats = None\<rparr>\<rparr>)
        \<lparr>enrichmentStatus = [''enrichmentStatus'' \<mapsto> \<lparr>className = ''status-box'', innerHTML = [], display = ''none''\<rparr>],
         enrichmentProgressBar = Fin 0, download_enriched_btn = ''none'',
         currentDatasetFile = Some ''raw.parquet'', enrichmentJobId = None,
         datasetInfo = ExtractedInfo 40 ''raw.parquet'', coverageStats = NoCoverage, timers = []\<rparr>) ''enrichmentStatus'' =
      Some \<lparr>className = ''status-box error'',
        innerHTML = cross_mark @ '' Error checking status: total_processed'', display = ''block''\<rparr>
   \<and> timers
      (pollEnrichmentStatus \<lparr>number_to_string = (\<lambda>x. ''n''), type_error_message = (\<lambda>p. p),
          non_finite_message = ''not finite''\<rparr> ''job-1''
        (Parsed \<lparr>status = ''running'', error = None, processed = Some (10 ^ 400), total' = None,
           result = None\<rparr>)
        \<lparr>enrichmentStatus = [''enrichmentStatus'' \<mapsto> \<lparr>className = ''status-box'', innerHTML = [], display = ''none''\<rparr>],
         enrichmentProgressBar = Fin 0, download_enriched_btn = ''none'',
         currentDatasetFile = Some ''raw.parquet'', enrichmentJobId = None,
         datasetInfo = ExtractedInfo 40 ''raw.parquet'', coverageStats = NoCoverage, timers = []\<rparr>) = []
   \<and> enrichmentProgressBar
      (pollEnrichmentStatus \<lparr>number_to_string = (\<lambda>x. ''n''), type_error_message = (\<lambda>p. p),
          non_finite_message = ''not finite''\<rparr> ''job-1''
        (Parsed \<lparr>status = ''running'', error = None, processed = Some (10 ^ 400), total' = None,
           result = None\<rparr>)
        \<lparr>enrichmentStatus = [''enrichmentStatus'' \<mapsto> \<lparr>className = ''status-box'', innerHTML = [], display = ''none''\<rparr>],
         enrichmentProgressBar = Fin 0, download_enriched_btn = ''none'',
         currentDatasetFile = Some ''raw.parquet'', enrichmentJobId = None,
         datasetInfo = ExtractedInfo 40 ''raw.parquet'', coverageStats = NoCoverage, timers = []\<rparr>) = Fin 0"
proof -
  let ?rt = "\<lparr>number_to_string = (\<lambda>x. ''n''), type_error_message = (\<lambda>p. p),
          non_finite_message = ''not finite''\<rparr>"
  let ?s = "\<lparr>enrichmentStatus = [''enrichmentStatus'' \<mapsto> \<lparr>className = ''status-box'', innerHTML = [], display = ''none''\<rparr>],
         enrichmentProgressBar = Fin 0, download_enriched_btn = ''none'',
         currentDatasetFile = Some ''raw.parquet'', enrichmentJobId = None,
         datasetInfo = ExtractedInfo 40 ''raw.parquet'', coverageStats = NoCoverage, timers = []\<rparr>"
  let ?big = "\<lparr>status = ''running'', error = None, processed = Some (10 ^ 400), total' = None,
      result = None\<rparr>"
  have tie: "round (100 * 23 / 40 :: rat) = 58"
    by (simp add: round_def floor_rat_numeral)
  have rounded: "enrichmentProgressBar
      (pollEnrichmentStatus ?rt ''job-1''
        (Parsed \<lparr>status = ''running'', error = None, processed = Some 23, total' = Some 40,
           result = None\<rparr>) ?s) = Fin 57"
    using poll_running [of "\<lparr>status = ''running'', error = None, processed = Some 23, total' = Some 40,
      result = None\<rparr>" ?rt "''job-1''" ?s]
    by (simp add: percent_23_of_40)
  have box: "enrichmentStatus ?s ''enrichmentStatus'' =
      Some \<lparr>className = ''status-box'', innerHTML = [], display = ''none''\<rparr>"
    by simp
  have completed: "datasetInfo
      (pollEnrichmentStatus ?rt ''job-1''
        (Parsed \<lparr>status = ''completed'', error = None, processed = None, total' = None,
           result = Some \<lparr>output_file = Some ''enriched.parquet'', enrichment_stats = None\<rparr>\<rparr>) ?s)
        = ExtractedInfo 40 ''raw.parquet''"
    and dsfile: "currentDatasetFile
      (pollEnrichmentStatus ?rt ''job-1''
        (Parsed \<lparr>status = ''completed'', error = None, processed = None, total' = None,
           result = Some \<lparr>output_file = Some ''enriched.parquet'', enrichment_stats = None\<rparr>\<rparr>) ?s)
        = Some ''enriched.parquet''"
    and shown: "enrichmentStatus
      (pollEnrichmentStatus ?rt ''job-1''
        (Parsed \<lparr>status = ''completed'', error = None, processed = None, total' = None,
           result = Some \<lparr>output_file = Some ''enriched.parquet'', enrichment_stats = None\<rparr>\<rparr>) ?s)
        ''enrichmentStatus'' =
      Some \<lparr>className = ''status-box error'',
        innerHTML = cross_mark @ '' Error checking status: total_processed'', display = ''block''\<rparr>"
    using poll_completed_no_stats [OF _ _ _ box, of
        "\<lparr>status = ''completed'', error = None, processed = None, total' = None,
           result = Some \<lparr>output_file = Some ''enriched.parquet'', enrichment_stats = None\<rparr>\<rparr>"
        "\<lparr>output_file = Some ''enriched.parquet'', enrichment_stats = None\<rparr>" ?rt "''job-1''"]
      poll_completed_file [of
        "\<lparr>status = ''completed'', error = None, processed = None, total' = None,
           result = Some \<lparr>output_file = Some ''enriched.parquet'', enrichment_stats = None\<rparr>\<rparr>"
        "\<lparr>output_file = Some ''enriched.parquet'', enrichment_stats = None\<rparr>" ?rt "''job-1''" ?s]
    by simp_all
  have "\<not> is_finite (poll_percent ?big)"
    by (simp only: percent_1e400 is_finite.simps not_False_eq_True)
  then have "pollEnrichmentStatus ?rt ''job-1'' (Parsed ?big) ?s = poll_catch (non_finite_message ?rt) ?s"
    by (intro poll_running_non_finite) simp_all
  then have thrown: "timers (pollEnrichmentStatus ?rt ''job-1'' (Parsed ?big) ?s) = []"
    "enrichmentProgressBar (pollEnrichmentStatus ?rt ''job-1'' (Parsed ?big) ?s) = Fin 0"
    by (simp_all only: poll_catch_fields) simp_all
  from tie rounded completed dsfile shown thrown show ?thesis
    by (simp only:) simp
qed

text \<open>
  C7. When the request of a poll fails (\<open>fetch\<close> or \<open>res.json()\<close> rejects), the status box
  shows the message of the error as an error and no timer is scheduled; with no other timer
  pending, that poll is the last one, whatever the server would answer afterwards. So a poll
  that schedules the next one (an unfinished job with a finite percentage) and is followed by
  a failing request makes two polls, and one that schedules none makes one.
\<close>

theorem poll_request_failure_stops_polling:
  assumes "enrichmentStatus s ''enrichmentStatus'' = Some b"
  shows "enrichmentStatus (pollEnrichmentStatus rt jobId (Rejected m) s) ''enrichmentStatus'' =
      Some \<lparr>className = ''status-box error'', innerHTML = cross_mark @ '' Error checking status: '' @ m,
        display = ''block''\<rparr>
    \<and> timers (pollEnrichmentStatus rt jobId (Rejected m) s) = timers s
    \<and> download_enriched_btn (pollEnrichmentStatus rt jobId (Rejected m) s) = download_enriched_btn s
    \<and> (timers s = [] \<longrightarrow>
        poll_states rt jobId (Rejected m # outs) s = [pollEnrichmentStatus rt jobId (Rejected m) s])
    \<and> (timers s = [] \<and> status data \<noteq> ''completed'' \<and> status data \<noteq> ''failed'' \<longrightarrow>
        length (poll_states rt jobId (Parsed data # Rejected m # outs) s) =
          (if is_finite (poll_percent data) then 2 else 1))"
proof -
  have t: "timers (pollEnrichmentStatus rt jobId (Rejected m) s') = timers s'" for s'
    by (simp add: pollEnrichmentStatus_def poll_catch_fields)
  have one: "timers s = [] \<longrightarrow>
      poll_states rt jobId (Rejected m # outs) s = [pollEnrichmentStatus rt jobId (Rejected m) s]"
    by (cases outs) (simp_all add: Let_def t)
  have two: "timers s = [] \<and> status data \<noteq> ''completed'' \<and> status data \<noteq> ''failed'' \<longrightarrow>
      length (poll_states rt jobId (Parsed data # Rejected m # outs) s) =
        (if is_finite (poll_percent data) then 2 else 1)"
  proof (cases "is_finite (poll_percent data)")
    case True
    then show ?thesis
      using poll_running [of data rt jobId s]
      by (cases outs) (auto simp: Let_def t)
  next
    case False
    then show ?thesis
      using poll_running_non_finite [of data rt jobId s]
      by (cases outs) (auto simp: Let_def poll_catch_fields)
  qed
  from poll_rejected [OF assms, of rt jobId m] one two show ?thesis
    by (simp add: pollEnrichmentStatus_def poll_catch_fields)
qed

theorem poll_request_failure_stops_polling_witness:
  "timers
      (pollEnrichmentStatus \<lparr>number_to_string = (\<lambda>x. ''n''), type_error_message = (\<lambda>p. p),
          non_finite_message = ''not finite''\<rparr> ''job-1''
        (Rejected ''Failed to fetch'')
        \<lparr>enrichmentStatus = [''enrichmentStatus'' \<mapsto> \<lparr>className = ''status-box'', innerHTML = [], display = ''none''\<rparr>],
         enrichmentProgressBar = Fin 0, download_enriched_btn = ''none'',
         currentDatasetFile = Some ''raw.parquet'', enrichmentJobId = None,
         datasetInfo = ExtractedInfo 40 ''raw.parquet'', coverageStats = NoCoverage, timers = []\<rparr>) = []
   \<and> length
      (poll_states \<lparr>number_to_string = (\<lambda>x. ''n''), type_error_message = (\<lambda>p. p),
          non_finite_message = ''not finite''\<rparr> ''job-1''
        [Parsed \<lparr>status = ''running'', error = None, processed = Some 25, total' = Some 100, result = None\<rparr>,
         Rejected ''Failed to fetch'',
         Parsed \<lparr>status = ''running'', error = None, processed = Some 80, total' = Some 100, result = None\<rparr>]
        \<lparr>enrichmentStatus = [''enrichmentStatus'' \<mapsto> \<lparr>className = ''status-box'', innerHTML = [], display = ''none''\<rparr>],
         enrichmentProgressBar = Fin 0, download_enriched_btn = ''none'',
         currentDatasetFile = Some ''raw.parquet'', enrichmentJobId = None,
         datasetInfo = ExtractedInfo 40 ''raw.parquet'', coverageStats = NoCoverage, timers = []\<rparr>) = 2"
proof -
  let ?s = "\<lparr>enrichmentStatus = [''enrichmentStatus'' \<mapsto> \<lparr>className = ''status-box'', innerHTML = [], display = ''none''\<rparr>],
         enrichmentProgressBar = Fin 0, download_enriched_btn = ''none'',
         currentDatasetFile = Some ''raw.parquet'', enrichmentJobId = None,
         datasetInfo = ExtractedInfo 40 ''raw.parquet'', coverageStats = NoCoverage, timers = []\<rparr>"
  have box: "enrichmentStatus ?s ''enrichmentStatus'' =
      Some \<lparr>className = ''status-box'', innerHTML = [], display = ''none''\<rparr>"
    by simp
  from poll_request_failure_stops_polling [OF box,
      where rt = "\<lparr>number_to_string = (\<lambda>x. ''n''), type_error_message = (\<lambda>p. p),
          non_finite_message = ''not finite''\<rparr>"
        and jobId = "''job-1''" and m = "''Failed to fetch''"
        and outs = "[Parsed \<lparr>status = ''running'', error = None, processed = Some 80, total' = Some 100, result = None\<rparr>]"
        and data = "\<lparr>status = ''running'', error = None, processed = Some 25, total' = Some 100, result = None\<rparr>"]
  show ?thesis
    by (simp add: percent_25_of_100)
qed

text \<open>
  C10, as the code has it. In the last branch the divisor is never zero, for every response:
  a \<open>total\<close> that is missing or zero is replaced by 1 and a \<open>processed\<close> that is missing or
  zero by 0. For counters that are safe integers the percentage is a finite number with an
  integer value that is not negative, and it is the value the progress bar gets.
\<close>

theorem poll_percent_well_defined:
  "poll_total data \<noteq> Fin 0
   \<and> (processed data = None \<or> processed data = Some 0 \<longrightarrow> poll_processed data = Fin 0)
   \<and> (total' data = None \<or> total' data = Some 0 \<longrightarrow> poll_total data = Fin 1)
   \<and> (safe_counter (processed data) \<and> safe_counter (total' data) \<longrightarrow>
        (\<exists>k. 0 \<le> k \<and> poll_percent data = Fin (of_int k)
          \<and> (status data \<noteq> ''completed'' \<and> status data \<noteq> ''failed'' \<longrightarrow>
               enrichmentProgressBar (pollEnrichmentStatus rt jobId (Parsed data) s) = Fin (of_int k))))"
proof -
  have "safe_counter (processed data) \<and> safe_counter (total' data) \<longrightarrow>
        (\<exists>k. 0 \<le> k \<and> poll_percent data = Fin (of_int k)
          \<and> (status data \<noteq> ''completed'' \<and> status data \<noteq> ''failed'' \<longrightarrow>
               enrichmentProgressBar (pollEnrichmentStatus rt jobId (Parsed data) s) = Fin (of_int k)))"
    using poll_percent_finite [of data] poll_percent_is_finite [of data] poll_running [of data rt jobId s]
    by auto
  then show ?thesis
    using poll_total_nonzero [of data] poll_processed_default [of data] poll_total_default [of data]
    by blast
qed

theorem poll_percent_well_defined_witness:
  "poll_processed \<lparr>status = ''running'', error = None, processed = None, total' = Some 0, result = None\<rparr>
      = Fin 0
   \<and> poll_total \<lparr>status = ''running'', error = None, processed = None, total' = Some 0, result = None\<rparr>
      = Fin 1
   \<and> (\<exists>k. 0 \<le> k
        \<and> poll_percent \<lparr>status = ''running'', error = None, processed = Some 25, total' = Some 100,
            result = None\<rparr> = Fin (of_int k))"
  using
    poll_percent_well_defined [of
      "\<lparr>status = ''running'', error = None, processed = None, total' = Some 0, result = None\<rparr>"]
    poll_percent_well_defined [of
      "\<lparr>status = ''running'', error = None, processed = Some 25, total' = Some 100, result = None\<rparr>"]
  by (simp add: safe_counter_def) blast

text \<open>
  C10 as stated fails for counters beyond the range of the doubles: with \<open>processed = 1e400\<close>
  and no \<open>total\<close> the division is by 1 and the percentage is an infinity; with
  \<open>total = 1e400\<close> as well the quotient of the two infinities, and so the percentage, is
  \<open>NaN\<close>. Neither is an integer.
\<close>

theorem poll_percent_not_an_integer:
  "poll_total \<lparr>status = ''running'', error = None, processed = Some (10 ^ 400), total' = None,
      result = None\<rparr> = Fin 1
   \<and> poll_percent \<lparr>status = ''running'', error = None, processed = Some (10 ^ 400), total' = None,
      result = None\<rparr> = PInf
   \<and> poll_percent \<lparr>status = ''running'', error = None, processed = Some (10 ^ 400),
      total' = Some (10 ^ 400), result = None\<rparr> = NaN
   \<and> (\<forall>k. PInf \<noteq> Fin (of_int k) \<and> NaN \<noteq> Fin (of_int k))"
proof -
  have "poll_total \<lparr>status = ''running'', error = None, processed = Some (10 ^ 400), total' = None,
      result = None\<rparr> = Fin 1"
    by (rule poll_total_default) simp
  then show ?thesis
    by (simp only: percent_1e400) simp
qed

section \<open>Properties of the dataset list\<close>





section \<open>Properties of the debounced search\<close>

lemma executeSearch_timers:
  "search_timers (executeSearch q out s) = search_timers s"
  "searchTimeout (executeSearch q out s) = searchTimeout s"
  "next_handle (executeSearch q out s) = next_handle s"
  by (simp_all add: executeSearch_def Let_def split: search_outcome.splits)

lemma executeSearch_requests:
  "search_requests (executeSearch q out s) =
    (if length q < 2 then search_requests s else search_requests s @ [q])"
  by (simp add: executeSearch_def Let_def split: search_outcome.splits)

lemma executeSearch_short:
  assumes "length q < 2" and "searchStatus s ''searchStatus'' = Some b"
  shows "searchStatus (executeSearch q out s) ''searchStatus'' =
    Some \<lparr>className = ''status-box error'', innerHTML = ''Enter at least 2 characters'', display = ''block''\<rparr>"
  using assms by (simp add: executeSearch_def showStatus_existing)

lemma run_due_nothing:
  assumes "list_all (\<lambda>t. now < due t) (search_timers s)"
  shows "run_due server now s = s"
proof -
  have "filter (\<lambda>t. due t \<le> now) (search_timers s) = []"
    using assms by (auto simp: list_all_iff filter_empty_conv)
  moreover have "filter (\<lambda>t. \<not> due t \<le> now) (search_timers s) = search_timers s"
    using assms by (auto simp: list_all_iff filter_id_conv)
  ultimately show ?thesis by (simp add: run_due_def)
qed

lemma input_event_first:
  assumes "search_timers s = []" and "1 \<le> length (trim v)"
  shows "one_pending (input_event server s (t, v)) t (trim v)
    \<and> search_requests (input_event server s (t, v)) = search_requests s
    \<and> searchStatus (input_event server s (t, v)) = searchStatus s"
proof -
  have "run_due server t s = s" using assms(1) by (intro run_due_nothing) simp
  moreover have "trim v \<noteq> []" using assms(2) by auto
  ultimately show ?thesis
    using assms(1) by (simp add: input_event_def globalSearch_def Let_def one_pending_def clearTimeout_def)
qed

lemma input_event_next:
  assumes "one_pending s t0 q" and "t < t0 + 300" and "1 \<le> length (trim v)"
  shows "one_pending (input_event server s (t, v)) t (trim v)
    \<and> search_requests (input_event server s (t, v)) = search_requests s
    \<and> searchStatus (input_event server s (t, v)) = searchStatus s"
proof -
  have "run_due server t s = s"
    using assms(1,2) by (intro run_due_nothing) (auto simp: one_pending_def split: option.splits)
  moreover have "trim v \<noteq> []" using assms(3) by auto
  ultimately show ?thesis
    using assms(1)
    by (auto simp: input_event_def globalSearch_def Let_def one_pending_def clearTimeout_def
        split: option.splits)
qed

lemma input_events_burst:
  assumes "one_pending s t0 q" and "burst ((t0, v0) # evs)"
    and "list_all (\<lambda>ev. 1 \<le> length (trim (snd ev))) evs" and "q = trim v0"
  shows "one_pending (foldl (input_event server) s evs)
      (fst (last ((t0, v0) # evs))) (trim (snd (last ((t0, v0) # evs))))
    \<and> search_requests (foldl (input_event server) s evs) = search_requests s
    \<and> searchStatus (foldl (input_event server) s evs) = searchStatus s"
  using assms
proof (induction evs arbitrary: s t0 v0 q)
  case Nil
  then show ?case by simp
next
  case (Cons ev evs)
  obtain t v where ev: "ev = (t, v)" by (cases ev)
  from Cons.prems ev have t: "t < t0 + 300" and b: "burst ((t, v) # evs)"
    and v: "1 \<le> length (trim v)" and rest: "list_all (\<lambda>ev. 1 \<le> length (trim (snd ev))) evs"
    by simp_all
  from input_event_next [OF Cons.prems(1) t v, of server]
  have step: "one_pending (input_event server s (t, v)) t (trim v)"
    and req: "search_requests (input_event server s (t, v)) = search_requests s"
    and st: "searchStatus (input_event server s (t, v)) = searchStatus s"
    by simp_all
  from Cons.IH [OF step b rest refl] req st show ?case
    by (simp add: ev)
qed

lemma run_pending_one:
  assumes "one_pending s t q"
  shows "run_pending server s = executeSearch q (server q) (s\<lparr>search_timers := []\<rparr>)"
  using assms by (auto simp: run_pending_def one_pending_def run_timer_def split: option.splits)

lemma globalSearch_query:
  assumes "1 \<le> length (trim (searchQuery p))"
  shows "search_timers (globalSearch now p) =
      clearTimeout (searchTimeout p) (search_timers p)
        @ [\<lparr>handle = next_handle p, due = now + 300, timer_query = trim (searchQuery p)\<rparr>]
    \<and> search_requests (globalSearch now p) = search_requests p
    \<and> searchStatus (globalSearch now p) = searchStatus p"
proof -
  have "trim (searchQuery p) \<noteq> []" using assms by auto
  then show ?thesis by (simp add: globalSearch_def Let_def)
qed

lemma globalSearch_empty:
  assumes "trim (searchQuery p) = []"
  shows "search_timers (globalSearch now p) = search_timers p
    \<and> search_requests (globalSearch now p) = search_requests p
    \<and> (searchStatus p ''searchStatus'' \<noteq> None \<longrightarrow>
        searchStatus (globalSearch now p) ''searchStatus'' =
          Some \<lparr>className = ''status-box error'', innerHTML = ''Please enter search term'',
            display = ''block''\<rparr>)"
  using assms by (auto simp: globalSearch_def Let_def showStatus_existing)

text \<open>
  C2, as the code has it. A call of \<open>globalSearch\<close> with a query that is not empty clears the
  timer of the call before and schedules one 300 ms ahead; it makes no request and shows no
  message itself. A call with an empty query shows \<open>Please enter search term\<close> and returns
  before \<open>clearTimeout\<close>, so the timers stay as they are.

  From a page with no search timer pending, a burst of input events whose trimmed queries
  are not empty makes no request and shows no message while the events arrive, and leaves
  exactly one timer pending: that of the last event, due 300 ms after it, for its query.
  When the timers have run: if the last query has at least 2
  characters, exactly one request has been made, for the last query; if the last query has
  exactly 1 character (as for a single call of \<open>globalSearch\<close>), no request has been made and
  the status box, if the page has it, shows the validation message as an error.
\<close>

theorem debounced_search:
  assumes "search_timers s = []" and "evs \<noteq> []" and "burst evs"
    and "list_all (\<lambda>ev. 1 \<le> length (trim (snd ev))) evs"
  shows "(2 \<le> length (trim (snd (last evs))) \<longrightarrow>
      search_requests (run_events server evs s) = search_requests s @ [trim (snd (last evs))])
    \<and> (length (trim (snd (last evs))) = 1 \<longrightarrow>
      search_requests (run_events server evs s) = search_requests s
      \<and> (searchStatus s ''searchStatus'' \<noteq> None \<longrightarrow>
          searchStatus (run_events server evs s) ''searchStatus'' =
            Some \<lparr>className = ''status-box error'', innerHTML = ''Enter at least 2 characters'',
              display = ''block''\<rparr>))
    \<and> search_requests (foldl (input_event server) s evs) = search_requests s
    \<and> length (search_timers (foldl (input_event server) s evs)) = 1
    \<and> search_timers (run_events server evs s) = []
    \<and> searchStatus (foldl (input_event server) s evs) = searchStatus s
    \<and> map timer_query (search_timers (foldl (input_event server) s evs)) = [trim (snd (last evs))]
    \<and> map due (search_timers (foldl (input_event server) s evs)) = [fst (last evs) + 300]
    \<and> (1 \<le> length (trim (searchQuery p)) \<longrightarrow>
        search_timers (globalSearch now p) =
          clearTimeout (searchTimeout p) (search_timers p)
            @ [\<lparr>handle = next_handle p, due = now + 300, timer_query = trim (searchQuery p)\<rparr>]
        \<and> search_requests (globalSearch now p) = search_requests p
        \<and> searchStatus (globalSearch now p) = searchStatus p)
    \<and> (trim (searchQuery p) = [] \<longrightarrow>
        search_timers (globalSearch now p) = search_timers p
        \<and> search_requests (globalSearch now p) = search_requests p
        \<and> (searchStatus p ''searchStatus'' \<noteq> None \<longrightarrow>
            searchStatus (globalSearch now p) ''searchStatus'' =
              Some \<lparr>className = ''status-box error'', innerHTML = ''Please enter search term'',
                display = ''block''\<rparr>))"
proof -
  from assms(2) obtain t0 v0 rest where evs: "evs = (t0, v0) # rest"
    by (cases evs) auto
  define s1 where "s1 = input_event server s (t0, v0)"
  define s2 where "s2 = foldl (input_event server) s1 rest"
  define q where "q = trim (snd (last evs))"
  from assms(4) evs have v0: "1 \<le> length (trim v0)"
    and rest: "list_all (\<lambda>ev. 1 \<le> length (trim (snd ev))) rest"
    by simp_all
  from input_event_first [OF assms(1) v0, of server t0]
  have p1: "one_pending s1 t0 (trim v0)" and r1: "search_requests s1 = search_requests s"
    and b1: "searchStatus s1 = searchStatus s"
    by (simp_all add: s1_def)
  from input_events_burst [OF p1 _ rest refl, of server] assms(3) evs
  have p2: "one_pending s2 (fst (last evs)) q" and r2: "search_requests s2 = search_requests s"
    and b2: "searchStatus s2 = searchStatus s"
    by (simp_all add: s2_def q_def r1 b1)
  have fold: "foldl (input_event server) s evs = s2"
    by (simp add: evs s1_def s2_def)
  have run: "run_events server evs s = executeSearch q (server q) (s2\<lparr>search_timers := []\<rparr>)"
    by (simp add: run_events_def fold run_pending_one [OF p2])
  have long: "2 \<le> length q \<longrightarrow> search_requests (run_events server evs s) = search_requests s @ [q]"
    by (simp add: run executeSearch_requests r2)
  have short: "length q = 1 \<longrightarrow> search_requests (run_events server evs s) = search_requests s"
    by (simp add: run executeSearch_requests r2)
  have box: "length q = 1 \<longrightarrow> searchStatus s ''searchStatus'' \<noteq> None \<longrightarrow>
      searchStatus (run_events server evs s) ''searchStatus'' =
        Some \<lparr>className = ''status-box error'', innerHTML = ''Enter at least 2 characters'',
          display = ''block''\<rparr>"
    using executeSearch_short [of q "s2\<lparr>search_timers := []\<rparr>" _ "server q"]
    by (auto simp: run b2)
  have one: "length (search_timers (foldl (input_event server) s evs)) = 1"
    using p2 by (auto simp: fold one_pending_def split: option.splits)
  have pending: "map timer_query (search_timers s2) = [q]" "map due (search_timers s2) = [fst (last evs) + 300]"
    using p2 by (auto simp: one_pending_def split: option.splits)
  have none: "search_timers (run_events server evs s) = []"
    by (simp add: run executeSearch_timers)
  have burst_part: "(2 \<le> length (trim (snd (last evs))) \<longrightarrow>
      search_requests (run_events server evs s) = search_requests s @ [trim (snd (last evs))])
    \<and> (length (trim (snd (last evs))) = 1 \<longrightarrow>
      search_requests (run_events server evs s) = search_requests s
      \<and> (searchStatus s ''searchStatus'' \<noteq> None \<longrightarrow>
          searchStatus (run_events server evs s) ''searchStatus'' =
            Some \<lparr>className = ''status-box error'', innerHTML = ''Enter at least 2 characters'',
              display = ''block''\<rparr>))
    \<and> search_requests (foldl (input_event server) s evs) = search_requests s
    \<and> length (search_timers (foldl (input_event server) s evs)) = 1
    \<and> search_timers (run_events server evs s) = []
    \<and> searchStatus (foldl (input_event server) s evs) = searchStatus s
    \<and> map timer_query (search_timers (foldl (input_event server) s evs)) = [trim (snd (last evs))]
    \<and> map due (search_timers (foldl (input_event server) s evs)) = [fst (last evs) + 300]"
    using long short box one none r2 b2 pending by (simp add: fold q_def)
  from burst_part globalSearch_query [of p now] globalSearch_empty [of p now] show ?thesis
    by blast
qed


theorem debounced_search_witness:
  "search_requests
      (run_events (\<lambda>q. SearchRejected ''offline'') [(0, ''a''), (100, ''ab''), (250, '' abc '')]
        \<lparr>searchQuery = [], searchStatus = [''searchStatus'' \<mapsto> \<lparr>className = ''status-box'', innerHTML = [], display = ''none''\<rparr>],
         searchResults = NoResults, lastSearchResults = None, searchTimeout = None, search_timers = [],
         next_handle = 1, search_requests = []\<rparr>) = [''abc'']
   \<and> search_requests
      (run_events (\<lambda>q. SearchRejected ''offline'') [(0, ''a'')]
        \<lparr>searchQuery = [], searchStatus = [''searchStatus'' \<mapsto> \<lparr>className = ''status-box'', innerHTML = [], display = ''none''\<rparr>],
         searchResults = NoResults, lastSearchResults = None, searchTimeout = None, search_timers = [],
         next_handle = 1, search_requests = []\<rparr>) = []
   \<and> searchStatus
      (run_events (\<lambda>q. SearchRejected ''offline'') [(0, ''a'')]
        \<lparr>searchQuery = [], searchStatus = [''searchStatus'' \<mapsto> \<lparr>className = ''status-box'', innerHTML = [], display = ''none''\<rparr>],
         searchResults = NoResults, lastSearchResults = None, searchTimeout = None, search_timers = [],
         next_handle = 1, search_requests = []\<rparr>) ''searchStatus'' =
      Some \<lparr>className = ''status-box error'', innerHTML = ''Enter at least 2 characters'', display = ''block''\<rparr>
   \<and> search_timers
      (globalSearch 100
        \<lparr>searchQuery = ''ab'', searchStatus = [''searchStatus'' \<mapsto> \<lparr>className = ''status-box'', innerHTML = [], display = ''none''\<rparr>],
         searchResults = NoResults, lastSearchResults = None, searchTimeout = Some 1,
         search_timers = [\<lparr>handle = 1, due = 300, timer_query = ''a''\<rparr>],
         next_handle = 2, search_requests = []\<rparr>) = [\<lparr>handle = 2, due = 400, timer_query = ''ab''\<rparr>]
   \<and> search_timers
      (globalSearch 100
        \<lparr>searchQuery = '' '', searchStatus = [''searchStatus'' \<mapsto> \<lparr>className = ''status-box'', innerHTML = [], display = ''none''\<rparr>],
         searchResults = NoResults, lastSearchResults = None, searchTimeout = Some 1,
         search_timers = [\<lparr>handle = 1, due = 300, timer_query = ''a''\<rparr>],
         next_handle = 2, search_requests = []\<rparr>) = [\<lparr>handle = 1, due = 300, timer_query = ''a''\<rparr>]"
proof -
  let ?s = "\<lparr>searchQuery = [], searchStatus = [''searchStatus'' \<mapsto> \<lparr>className = ''status-box'', innerHTML = [], display = ''none''\<rparr>],
         searchResults = NoResults, lastSearchResults = None, searchTimeout = None, search_timers = [],
         next_handle = 1, search_requests = []\<rparr>"
  have idle: "search_timers ?s = []"
    by simp
  have three: "[(0, ''a''), (100, ''ab''), (250, '' abc '')] \<noteq> ([] :: (nat \<times> string) list)"
    and one: "[(0, ''a'')] \<noteq> ([] :: (nat \<times> string) list)"
    by simp_all
  have b3: "burst [(0, ''a''), (100, ''ab''), (250, '' abc '')]" and b1: "burst [(0, ''a'')]"
    by simp_all
  have q3: "list_all (\<lambda>ev. 1 \<le> length (trim (snd ev))) [(0 :: nat, ''a''), (100, ''ab''), (250, '' abc '')]"
    and q1: "list_all (\<lambda>ev. 1 \<le> length (trim (snd ev))) [(0 :: nat, ''a'')]"
    by (simp_all add: trim_def is_space_def)
  from debounced_search [OF idle three b3 q3, of "\<lambda>q. SearchRejected ''offline''"]
  have "search_requests (run_events (\<lambda>q. SearchRejected ''offline'')
      [(0, ''a''), (100, ''ab''), (250, '' abc '')] ?s) = [''abc'']"
    by (simp add: trim_def is_space_def)
  moreover from debounced_search [OF idle one b1 q1, of "\<lambda>q. SearchRejected ''offline''"]
  have "search_requests (run_events (\<lambda>q. SearchRejected ''offline'') [(0, ''a'')] ?s) = []"
    and "searchStatus (run_events (\<lambda>q. SearchRejected ''offline'') [(0, ''a'')] ?s) ''searchStatus'' =
      Some \<lparr>className = ''status-box error'', innerHTML = ''Enter at least 2 characters'', display = ''block''\<rparr>"
    by (simp_all add: trim_def is_space_def)
  moreover from debounced_search [OF idle one b1 q1, where now = 100 and p =
        "\<lparr>searchQuery = ''ab'', searchStatus = [''searchStatus'' \<mapsto> \<lparr>className = ''status-box'', innerHTML = [], display = ''none''\<rparr>],
         searchResults = NoResults, lastSearchResults = None, searchTimeout = Some 1,
         search_timers = [\<lparr>handle = 1, due = 300, timer_query = ''a''\<rparr>],
         next_handle = 2, search_requests = []\<rparr>"]
  have "search_timers
      (globalSearch 100
        \<lparr>searchQuery = ''ab'', searchStatus = [''searchStatus'' \<mapsto> \<lparr>className = ''status-box'', innerHTML = [], display = ''none''\<rparr>],
         searchResults = NoResults, lastSearchResults = None, searchTimeout = Some 1,
         search_timers = [\<lparr>handle = 1, due = 300, timer_query = ''a''\<rparr>],
         next_handle = 2, search_requests = []\<rparr>) = [\<lparr>handle = 2, due = 400, timer_query = ''ab''\<rparr>]"
    by (simp add: trim_def is_space_def clearTimeout_def)
  moreover from debounced_search [OF idle one b1 q1, where now = 100 and p =
        "\<lparr>searchQuery = '' '', searchStatus = [''searchStatus'' \<mapsto> \<lparr>className = ''status-box'', innerHTML = [], display = ''none''\<rparr>],
         searchResults = NoResults, lastSearchResults = None, searchTimeout = Some 1,
         search_timers = [\<lparr>handle = 1, due = 300, timer_query = ''a''\<rparr>],
         next_handle = 2, search_requests = []\<rparr>"]
  have "search_timers
      (globalSearch 100
        \<lparr>searchQuery = '' '', searchStatus = [''searchStatus'' \<mapsto> \<lparr>className = ''status-box'', innerHTML = [], display = ''none''\<rparr>],
         searchResults = NoResults, lastSearchResults = None, searchTimeout = Some 1,
         search_timers = [\<lparr>handle = 1, due = 300, timer_query = ''a''\<rparr>],
         next_handle = 2, search_requests = []\<rparr>) = [\<lparr>handle = 1, due = 300, timer_query = ''a''\<rparr>]"
    by (simp add: trim_def is_space_def)
  ultimately show ?thesis
    by blast
qed

text \<open>
  C2 as stated fails in two places.
  \<^item> A burst that holds an empty query: the events \<open>ab\<close> at 0 ms, the empty string at 200 ms
    and \<open>abc\<close> at 400 ms each come less than 300 ms after the one before. The call with the
    empty string returns before \<open>clearTimeout\<close>, so the timer of \<open>ab\<close> runs at 300 ms, and the
    timer of \<open>abc\<close> at 700 ms: two requests.
  \<^item> A query of one character: the call of \<open>globalSearch\<close> leaves the status box as it was;
    the message is shown by the timer, and when the next event comes within the window (\<open>a\<close>
    at 0 ms, \<open>ab\<close> at 100 ms) that timer is cleared and the message is not shown at all.
\<close>

theorem debounced_search_as_stated_fails:
  "burst [(0, ''ab''), (200, []), (400, ''abc'')]
   \<and> search_requests
      (run_events (\<lambda>q. SearchRejected ''offline'') [(0, ''ab''), (200, []), (400, ''abc'')]
        \<lparr>searchQuery = [], searchStatus = [''searchStatus'' \<mapsto> \<lparr>className = ''status-box'', innerHTML = [], display = ''none''\<rparr>],
          searchResults = NoResults, lastSearchResults = None, searchTimeout = None, search_timers = [],
          next_handle = 1, search_requests = []\<rparr>) = [''ab'', ''abc'']
   \<and> searchStatus
      (foldl (input_event (\<lambda>q. SearchRejected ''offline'')) \<lparr>searchQuery = [], searchStatus = [''searchStatus'' \<mapsto> \<lparr>className = ''status-box'', innerHTML = [], display = ''none''\<rparr>],
          searchResults = NoResults, lastSearchResults = None, searchTimeout = None, search_timers = [],
          next_handle = 1, search_requests = []\<rparr> [(0, ''a'')]) ''searchStatus'' =
      Some \<lparr>className = ''status-box'', innerHTML = [], display = ''none''\<rparr>
   \<and> searchStatus
      (foldl (input_event (\<lambda>q. SearchRejected ''offline'')) \<lparr>searchQuery = [], searchStatus = [''searchStatus'' \<mapsto> \<lparr>className = ''status-box'', innerHTML = [], display = ''none''\<rparr>],
          searchResults = NoResults, lastSearchResults = None, searchTimeout = None, search_timers = [],
          next_handle = 1, search_requests = []\<rparr> [(0, ''a''), (100, ''ab'')]) ''searchStatus'' =
      Some \<lparr>className = ''status-box'', innerHTML = [], display = ''none''\<rparr>
   \<and> searchStatus
      (run_events (\<lambda>q. SearchRejected ''offline'') [(0, ''a''), (100, ''ab'')]
        \<lparr>searchQuery = [], searchStatus = [''searchStatus'' \<mapsto> \<lparr>className = ''status-box'', innerHTML = [], display = ''none''\<rparr>],
          searchResults = NoResults, lastSearchResults = None, searchTimeout = None, search_timers = [],
          next_handle = 1, search_requests = []\<rparr>) ''searchStatus'' =
      Some \<lparr>className = ''status-box error'', innerHTML = ''offline'', display = ''block''\<rparr>"
  by (simp add: run_events_def run_pending_def run_due_def run_timer_def input_event_def
      globalSearch_def executeSearch_def clearTimeout_def showStatus_def trim_def is_space_def Let_def)

section \<open>Properties of the letter generation\<close>

lemma showLetterStatus_requests: "letter_requests (showLetterStatus m k s) = letter_requests s"
  by (simp add: showLetterStatus_def split: option.splits)

lemma showLetterStatus_error:
  assumes "letterStatus s = Some d" and "m \<noteq> []"
  shows "letterStatus (showLetterStatus m ''error'' s) =
    Some \<lparr>status_message = m, status_kind = ''error'', status_display = ''block''\<rparr>"
  using assms by (simp add: showLetterStatus_def)

lemma generateFromUpload_no_template:
  assumes "templateFileUpload s = []"
  shows "generateFromUpload out s =
    showLetterStatus
      (if letterFileUpload s = [] then ''Please select a data file''
       else ''Please upload a template file (.docx) - this is mandatory'') ''error'' s"
  using assms by (simp add: generateFromUpload_def split: list.splits)

lemma generateFromDataset_no_template:
  assumes "templateFileUpload s = []"
  shows "generateFromDataset out s =
    showLetterStatus
      (if js_or_string (datasetSelect s) [] = [] then ''Please select a dataset''
       else ''Please upload a template file (.docx) - this is mandatory'') ''error'' s"
  using assms by (simp add: generateFromDataset_def)

lemma generateLetters_no_template:
  assumes "templateFileUpload s = []"
  shows "generateLetters out s =
    showLetterStatus
      (case dataSource s of
         None \<Rightarrow> ''Please select a data source''
       | Some source \<Rightarrow>
          if source = ''upload''
          then (if letterFileUpload s = [] then ''Please select a data file''
                else ''Please upload a template file (.docx) - this is mandatory'')
          else (if js_or_string (datasetSelect s) [] = [] then ''Please select a dataset''
                else ''Please upload a template file (.docx) - this is mandatory'')) ''error'' s"
  using assms
  by (simp add: generateLetters_def generateFromUpload_no_template generateFromDataset_no_template
      split: option.splits)

text \<open>
  C4, as the code has it. A submission without template file never reaches a request or a
  download, whatever the data source; on a page with the status element it shows an error.
  The error is the one about the mandatory template when the check of the data source
  before it passes: a data file is chosen for the source \<open>upload\<close>, a dataset is selected for
  any other source. Otherwise the error is that of the check that fails: no data source is
  chosen, no data file for the source \<open>upload\<close>, or no dataset for any other source.
\<close>

theorem generateLetters_without_template:
  assumes "templateFileUpload s = []"
  shows "letter_requests (generateLetters out s) = letter_requests s
    \<and> downloads (generateLetters out s) = downloads s
    \<and> (letterStatus s \<noteq> None \<longrightarrow>
         (\<exists>m. letterStatus (generateLetters out s) =
            Some \<lparr>status_message = m, status_kind = ''error'', status_display = ''block''\<rparr>))
    \<and> (letterStatus s \<noteq> None \<and> dataSource s = Some ''upload'' \<and> letterFileUpload s \<noteq> [] \<longrightarrow>
         letterStatus (generateLetters out s) =
           Some \<lparr>status_message = ''Please upload a template file (.docx) - this is mandatory'',
             status_kind = ''error'', status_display = ''block''\<rparr>)
    \<and> (letterStatus s \<noteq> None \<and> dataSource s = Some source \<and> source \<noteq> ''upload''
         \<and> datasetSelect s = Some dataset \<and> dataset \<noteq> [] \<longrightarrow>
         letterStatus (generateLetters out s) =
           Some \<lparr>status_message = ''Please upload a template file (.docx) - this is mandatory'',
             status_kind = ''error'', status_display = ''block''\<rparr>)
    \<and> (letterStatus s \<noteq> None \<and> dataSource s = None \<longrightarrow>
         letterStatus (generateLetters out s) =
           Some \<lparr>status_message = ''Please select a data source'', status_kind = ''error'',
             status_display = ''block''\<rparr>)
    \<and> (letterStatus s \<noteq> None \<and> dataSource s = Some ''upload'' \<and> letterFileUpload s = [] \<longrightarrow>
         letterStatus (generateLetters out s) =
           Some \<lparr>status_message = ''Please select a data file'', status_kind = ''error'',
             status_display = ''block''\<rparr>)
    \<and> (letterStatus s \<noteq> None \<and> dataSource s = Some source \<and> source \<noteq> ''upload''
         \<and> (datasetSelect s = None \<or> datasetSelect s = Some []) \<longrightarrow>
         letterStatus (generateLetters out s) =
           Some \<lparr>status_message = ''Please select a dataset'', status_kind = ''error'',
             status_display = ''block''\<rparr>)"
  unfolding generateLetters_no_template [OF assms]
  by (auto simp: showLetterStatus_def js_or_string_def split: option.splits)


theorem generateLetters_without_template_witness:
  "letterStatus
      (generateLetters (LetterOk None None None)
        \<lparr>dataSource = Some ''upload'', letterFileUpload = [\<lparr>file_name = ''companies.csv'', file_size = 2048\<rparr>],
         templateFileUpload = [], datasetSelect = Some [], outputMode = Some ''zip'',
         lettersPerFile = Some (Some 5),
         letterStatus = Some \<lparr>status_message = [], status_kind = ''info'', status_display = ''none''\<rparr>,
         letter_requests = [], letter_timers = [], downloads = []\<rparr>) =
      Some \<lparr>status_message = ''Please upload a template file (.docx) - this is mandatory'',
        status_kind = ''error'', status_display = ''block''\<rparr>
   \<and> letterStatus
      (generateLetters (LetterOk None None None)
        \<lparr>dataSource = Some ''dataset'', letterFileUpload = [],
         templateFileUpload = [], datasetSelect = Some ''7'', outputMode = Some ''zip'',
         lettersPerFile = Some (Some 5),
         letterStatus = Some \<lparr>status_message = [], status_kind = ''info'', status_display = ''none''\<rparr>,
         letter_requests = [], letter_timers = [], downloads = []\<rparr>) =
      Some \<lparr>status_message = ''Please upload a template file (.docx) - this is mandatory'',
        status_kind = ''error'', status_display = ''block''\<rparr>
   \<and> letter_requests
      (generateLetters (LetterOk None None None)
        \<lparr>dataSource = Some ''dataset'', letterFileUpload = [],
         templateFileUpload = [], datasetSelect = Some ''7'', outputMode = Some ''zip'',
         lettersPerFile = Some (Some 5),
         letterStatus = Some \<lparr>status_message = [], status_kind = ''info'', status_display = ''none''\<rparr>,
         letter_requests = [], letter_timers = [], downloads = []\<rparr>) = []
   \<and> letterStatus
      (generateLetters (LetterOk None None None)
        \<lparr>dataSource = None, letterFileUpload = [],
         templateFileUpload = [], datasetSelect = Some ''7'', outputMode = Some ''zip'',
         lettersPerFile = Some (Some 5),
         letterStatus = Some \<lparr>status_message = [], status_kind = ''info'', status_display = ''none''\<rparr>,
         letter_requests = [], letter_timers = [], downloads = []\<rparr>) =
      Some \<lparr>status_message = ''Please select a data source'', status_kind = ''error'',
        status_display = ''block''\<rparr>"
  using
    generateLetters_without_template [where out = "LetterOk None None None" and source = "''upload''"
      and dataset = "[]" and s =
        "\<lparr>dataSource = None, letterFileUpload = [],
         templateFileUpload = [], datasetSelect = Some ''7'', outputMode = Some ''zip'',
         lettersPerFile = Some (Some 5),
         letterStatus = Some \<lparr>status_message = [], status_kind = ''info'', status_display = ''none''\<rparr>,
         letter_requests = [], letter_timers = [], downloads = []\<rparr>"]
    generateLetters_without_template [where out = "LetterOk None None None" and source = "''upload''"
      and dataset = "[]" and s =
        "\<lparr>dataSource = Some ''upload'', letterFileUpload = [\<lparr>file_name = ''companies.csv'', file_size = 2048\<rparr>],
         templateFileUpload = [], datasetSelect = Some [], outputMode = Some ''zip'',
         lettersPerFile = Some (Some 5),
         letterStatus = Some \<lparr>status_message = [], status_kind = ''info'', status_display = ''none''\<rparr>,
         letter_requests = [], letter_timers = [], downloads = []\<rparr>"]
    generateLetters_without_template [where out = "LetterOk None None None" and source = "''dataset''"
      and dataset = "''7''" and s =
        "\<lparr>dataSource = Some ''dataset'', letterFileUpload = [],
         templateFileUpload = [], datasetSelect = Some ''7'', outputMode = Some ''zip'',
         lettersPerFile = Some (Some 5),
         letterStatus = Some \<lparr>status_message = [], status_kind = ''info'', status_display = ''none''\<rparr>,
         letter_requests = [], letter_timers = [], downloads = []\<rparr>"]
  by simp

text \<open>
  C4 as stated fails when the check before the template check fails: with the source
  \<open>upload\<close> and neither data file nor template the message is the one about the data file,
  with a dataset source and neither dataset nor template it is the one about the dataset,
  and with no data source chosen it is the one about the data source; in no case it is the
  message about the template.
\<close>

theorem generateLetters_without_template_other_message:
  "letterStatus
      (generateLetters (LetterOk None None None)
        \<lparr>dataSource = Some ''upload'', letterFileUpload = [],
         templateFileUpload = [], datasetSelect = Some [], outputMode = Some ''zip'',
         lettersPerFile = Some (Some 5),
         letterStatus = Some \<lparr>status_message = [], status_kind = ''info'', status_display = ''none''\<rparr>,
         letter_requests = [], letter_timers = [], downloads = []\<rparr>) =
      Some \<lparr>status_message = ''Please select a data file'', status_kind = ''error'',
        status_display = ''block''\<rparr>
   \<and> letterStatus
      (generateLetters (LetterOk None None None)
        \<lparr>dataSource = Some ''dataset'', letterFileUpload = [],
         templateFileUpload = [], datasetSelect = Some [], outputMode = Some ''zip'',
         lettersPerFile = Some (Some 5),
         letterStatus = Some \<lparr>status_message = [], status_kind = ''info'', status_display = ''none''\<rparr>,
         letter_requests = [], letter_timers = [], downloads = []\<rparr>) =
      Some \<lparr>status_message = ''Please select a dataset'', status_kind = ''error'',
        status_display = ''block''\<rparr>
   \<and> letterStatus
      (generateLetters (LetterOk None None None)
        \<lparr>dataSource = None, letterFileUpload = [],
         templateFileUpload = [], datasetSelect = Some [], outputMode = Some ''zip'',
         lettersPerFile = Some (Some 5),
         letterStatus = Some \<lparr>status_message = [], status_kind = ''info'', status_display = ''none''\<rparr>,
         letter_requests = [], letter_timers = [], downloads = []\<rparr>) =
      Some \<lparr>status_message = ''Please select a data source'', status_kind = ''error'',
        status_display = ''block''\<rparr>
   \<and> ''Please select a data file'' \<noteq> ''Please upload a template file (.docx) - this is mandatory''
   \<and> ''Please select a dataset'' \<noteq> ''Please upload a template file (.docx) - this is mandatory''
   \<and> ''Please select a data source'' \<noteq> ''Please upload a template file (.docx) - this is mandatory''"
  by (simp add: generateLetters_def generateFromUpload_def generateFromDataset_def showLetterStatus_def
      js_or_string_def)

end
